theory Spec2Isabelle
  imports Complex_Main
begin

section \<open>The tutoring marketplace schema: tables, row-level policies, triggers\<close>

text \<open>
  The repository holds two revisions of the database schema, each a complete migration:
  \<^item> \<open>Rev000\<close> is \<^verbatim>\<open>src/unnamed/part_000\<close> (VARCHAR columns with CHECK constraints, the
    table lesson_materials, one FOR ALL policy per table, no trigger but handle_new_user);
  \<^item> \<open>Rev001\<close> is \<^verbatim>\<open>src/unnamed/part_001\<close> (enum types, one policy per command, the
    triggers calculate_transaction_amounts, update_teacher_stats and handle_updated_at).
  Both create the same tables and cannot be applied together, so every operation below
  takes the revision as a parameter and follows that file. The tables subjects and
  lesson_materials, which no statement below reads or writes, are left out.

  Conventions of the embedding:
  \<^item> a table is the list of its rows, a row is a record with one field per column;
  \<^item> a nullable column is an \<open>option\<close> (\<open>None\<close> is NULL);
  \<^item> a DECIMAL(p,2) value is the integer number of hundredths it holds, so 10.00 is
    \<open>1000\<close>; an exact numeric intermediate result is a rational;
  \<^item> a UUID and a timestamp are natural numbers; a text value is the list of the code points
    of its characters, so that its length counts characters;
  \<^item> a statement that fails raises, which rolls it back: the result is \<open>Inl\<close> of the
    error and no new state;
  \<^item> a policy is the predicate its USING / WITH CHECK expression denotes. A subquery in
    a policy reads, as every query of the caller does, the rows that the SELECT policies
    of its table let the caller see; where the policies of a table come to read that
    table again, the statement raises (see \<open>infinite_recursion\<close>). A comparison with a
    NULL \<open>auth.uid()\<close> is not true, so an anonymous caller satisfies no such comparison.
\<close>

subsection \<open>Data model\<close>

type_synonym uuid = nat
type_synonym pg_text = "nat list"
type_synonym timestamp = nat

datatype revision = Rev000 | Rev001

datatype user_type = Teacher | Student | Admin
datatype difficulty_level = Beginner | Intermediate | Advanced
datatype booking_status = Pending | Confirmed | Completed | Cancelled
datatype payment_status = Payment_Pending | Payment_Completed | Payment_Failed | Payment_Refunded

text \<open>
  The errors PostgreSQL raises for the statements below, by their condition names.
  In the words of the specification: \<open>UniqueViolation\<close> is its ConflictError,
  \<open>InsufficientPrivilege\<close> (42501, a row refused by a row-level policy) its
  PermissionDenied, and \<open>NotNullViolation\<close>, \<open>CheckViolation\<close>, \<open>ForeignKeyViolation\<close>,
  \<open>InvalidTextRepresentation\<close>, \<open>StringDataRightTruncation\<close> and
  \<open>NumericValueOutOfRange\<close> (22003) its ValidationError. \<open>InvalidObjectDefinition\<close>
  (42P17) is "infinite recursion detected in policy for relation", which the
  specification does not name.
\<close>

datatype error =
    UniqueViolation
  | NotNullViolation
  | CheckViolation
  | ForeignKeyViolation
  | InvalidTextRepresentation
  | StringDataRightTruncation
  | NumericValueOutOfRange
  | InsufficientPrivilege
  | InvalidObjectDefinition

record profile =
  p_id :: uuid
  p_email :: pg_text
  p_full_name :: pg_text
  p_avatar_url :: "pg_text option"
  p_user_type :: user_type
  p_phone :: "pg_text option"
  p_bio :: "pg_text option"
  p_experience_years :: "int option"
  p_hourly_rate :: "int option"
  p_is_verified :: "bool option"
  p_rating :: "int option"
  p_total_students :: "int option"
  p_total_lessons :: "int option"
  p_created_at :: timestamp
  p_updated_at :: timestamp

record lesson =
  l_id :: uuid
  l_teacher_id :: uuid
  l_subject_id :: uuid
  l_title :: pg_text
  l_description :: pg_text
  l_duration_minutes :: int
  l_price :: int
  l_max_students :: "int option"
  l_difficulty_level :: "difficulty_level option"
  l_is_active :: "bool option"
  l_created_at :: timestamp
  l_updated_at :: timestamp

record booking =
  b_id :: uuid
  b_lesson_id :: uuid
  b_student_id :: uuid
  b_teacher_id :: uuid
  b_scheduled_at :: timestamp
  b_status :: "booking_status option"
  b_meeting_link :: "pg_text option"
  b_notes :: "pg_text option"
  b_created_at :: timestamp
  b_updated_at :: timestamp

text \<open>
  The three amounts of a transaction are NOT NULL columns, checked after the BEFORE
  trigger has run: the row a trigger receives may still hold NULL there, so the record
  keeps them as options.
\<close>

record transaction_row =
  t_id :: uuid
  t_booking_id :: uuid
  t_student_id :: uuid
  t_teacher_id :: uuid
  t_total_amount :: "int option"
  t_platform_commission :: "int option"
  t_teacher_amount :: "int option"
  t_payment_status :: "payment_status option"
  t_payment_method :: "pg_text option"
  t_transaction_ref :: "pg_text option"
  t_created_at :: timestamp

record review =
  r_id :: uuid
  r_booking_id :: uuid
  r_student_id :: uuid
  r_teacher_id :: uuid
  r_rating :: int
  r_comment :: "pg_text option"
  r_created_at :: timestamp

record database =
  profiles :: "profile list"
  lessons :: "lesson list"
  bookings :: "booking list"
  transactions :: "transaction_row list"
  reviews :: "review list"

text \<open>
  Who runs a statement. Row level security is enabled, not forced, on every table: the
  table owner and a role with BYPASSRLS (the role the migrations and a SECURITY DEFINER
  function run as) are not subject to the policies. Every other caller is, and
  \<open>auth.uid()\<close> is the identity of its session, NULL when it has none.
\<close>

datatype caller = Bypass_RLS | Auth "uuid option"

definition rls :: "caller \<Rightarrow> (uuid option \<Rightarrow> bool) \<Rightarrow> bool" where
  "rls c policy = (case c of Bypass_RLS \<Rightarrow> True | Auth uid \<Rightarrow> policy uid)"

text \<open>
  The inserted value of a column: left out of the INSERT (its DEFAULT applies) or given.
\<close>

datatype 'a column_value = Omitted | Given 'a

fun with_default :: "'a \<Rightarrow> 'a column_value \<Rightarrow> 'a" where
  "with_default d Omitted = d"
| "with_default d (Given v) = v"

subsection \<open>Numeric values\<close>

text \<open>
  \<open>of_scale2\<close> reads a DECIMAL(p,2) value as the rational it denotes. \<open>to_scale2\<close> is
  the coercion of an exact numeric to scale 2 that an assignment to such a column
  performs: PostgreSQL rounds a numeric to the nearest value, ties away from zero.
\<close>

definition of_scale2 :: "int \<Rightarrow> rat" where
  "of_scale2 c = of_int c / 100"

definition to_scale2 :: "rat \<Rightarrow> int" where
  "to_scale2 x = (if 0 \<le> x then \<lfloor>x * 100 + 1 / 2\<rfloor> else - \<lfloor>- x * 100 + 1 / 2\<rfloor>)"

text \<open>The precision of a column: DECIMAL(10,2) holds less than \<open>10^8\<close>, DECIMAL(3,2) less than 10.\<close>

definition fits_decimal_10_2 :: "int \<Rightarrow> bool" where
  "fits_decimal_10_2 c = (\<bar>c\<bar> < 10 ^ 10)"

definition fits_decimal_3_2 :: "int \<Rightarrow> bool" where
  "fits_decimal_3_2 c = (\<bar>c\<bar> < 1000)"

subsection \<open>Row-level policies\<close>

text \<open>
  Policies of one command on one table are permissive: a row passes when one of them
  holds, and no row passes when there is none. A FOR ALL policy of \<open>Rev000\<close> counts for
  every command, its USING expression serving as WITH CHECK.

  The tables a policy reads. \<open>policy_reads v t cmd\<close> lists the tables that the subqueries
  of the policies of table \<open>t\<close> for command \<open>cmd\<close> select from:
  \<^item> \<open>Rev000\<close>: "System can manage transactions" (FOR ALL) reads profiles; "Students can
    create reviews for completed bookings" reads bookings; no other policy of these
    tables has a subquery.
  \<^item> \<open>Rev001\<close>: "Admins can view all profiles" and "Admins can update all profiles", both
    ON profiles, read profiles; "Admins can view all lessons", "Admins can view all
    bookings" and "Admins can view all transactions" read profiles; "Students can insert
    reviews for their bookings" reads bookings; the other policies have no subquery.
\<close>

datatype table = Profiles | Lessons | Bookings | Transactions | Reviews

datatype command = Select | Insert | Update

fun policy_reads :: "revision \<Rightarrow> table \<Rightarrow> command \<Rightarrow> table list" where
  "policy_reads Rev000 Transactions cmd = [Profiles]"
| "policy_reads Rev000 Reviews Insert = [Bookings]"
| "policy_reads Rev000 t cmd = []"
| "policy_reads Rev001 Profiles Select = [Profiles]"
| "policy_reads Rev001 Profiles Update = [Profiles]"
| "policy_reads Rev001 Lessons Select = [Profiles]"
| "policy_reads Rev001 Bookings Select = [Profiles]"
| "policy_reads Rev001 Transactions Select = [Profiles]"
| "policy_reads Rev001 Reviews Insert = [Bookings]"
| "policy_reads Rev001 t cmd = []"

text \<open>
  How PostgreSQL rewrites a statement of a caller under row level security. The policies
  of the statement's table, for the statement's commands, are added to the statement.
  Each table a subquery of them selects from gets its own SELECT policies added in turn,
  and so on. The tables whose policies are being added are the active ones: a subquery
  that selects from an active table stops the rewriting with 42P17, whatever the rows.
  The first argument bounds the depth; there are five tables.
\<close>

fun policy_expansion_recurs ::
  "nat \<Rightarrow> revision \<Rightarrow> table list \<Rightarrow> table \<Rightarrow> command list \<Rightarrow> bool" where
  "policy_expansion_recurs 0 v active t cmds = (t \<in> set active)"
| "policy_expansion_recurs (Suc n) v active t cmds =
     (t \<in> set active
      \<or> list_ex (\<lambda>s. policy_expansion_recurs n v (t # active) s [Select])
           (concat (map (policy_reads v t) cmds)))"

definition infinite_recursion :: "revision \<Rightarrow> table \<Rightarrow> command list \<Rightarrow> bool" where
  "infinite_recursion v t cmds =
     policy_expansion_recurs (length [Profiles, Lessons, Bookings, Transactions, Reviews])
       v [] t cmds"

text \<open>
  The commands whose policies a statement brings in: a SELECT those for SELECT, an
  INSERT without RETURNING those for INSERT, an UPDATE with a WHERE clause on a column
  those for SELECT and for UPDATE. Only a caller under the policies is concerned.
\<close>

definition policies_raise :: "revision \<Rightarrow> caller \<Rightarrow> table \<Rightarrow> command list \<Rightarrow> bool" where
  "policies_raise v c t cmds =
     (case c of Bypass_RLS \<Rightarrow> False | Auth uid \<Rightarrow> infinite_recursion v t cmds)"

text \<open>
  The expressions of the policies follow. In \<open>Rev001\<close> every expression with the admin
  subquery belongs to policies whose statements raise before a row is read; it is
  written down as the file has it and is never evaluated for a caller.

  \<^verbatim>\<open>EXISTS (SELECT 1 FROM profiles WHERE id = auth.uid() AND user_type = 'admin')\<close>,
  the subquery of every admin policy of both revisions. In \<open>Rev000\<close> every caller sees
  every profile ("Users can view all profiles" is true), so the subquery reads the whole
  table.
\<close>

definition is_admin :: "uuid option \<Rightarrow> database \<Rightarrow> bool" where
  "is_admin uid db = list_ex (\<lambda>p. uid = Some (p_id p) \<and> p_user_type p = Admin) (profiles db)"

text \<open>
  profiles. \<open>Rev000\<close>: "Users can view all profiles" (true), "Users can update own
  profile". \<open>Rev001\<close>: "Users can view all verified teacher profiles", "Users can view
  their own profile", "Admins can view all profiles"; "Users can update their own
  profile", "Admins can update all profiles".
\<close>

fun profiles_select_policy :: "revision \<Rightarrow> uuid option \<Rightarrow> database \<Rightarrow> profile \<Rightarrow> bool" where
  "profiles_select_policy Rev000 uid db p = True"
| "profiles_select_policy Rev001 uid db p =
     ((p_user_type p = Teacher \<and> p_is_verified p = Some True)
      \<or> uid = Some (p_id p)
      \<or> is_admin uid db)"

fun profiles_update_policy :: "revision \<Rightarrow> uuid option \<Rightarrow> database \<Rightarrow> profile \<Rightarrow> bool" where
  "profiles_update_policy Rev000 uid db p = (uid = Some (p_id p))"
| "profiles_update_policy Rev001 uid db p = (uid = Some (p_id p) \<or> is_admin uid db)"

text \<open>
  lessons. \<open>Rev000\<close>: "Anyone can view active lessons", "Teachers can manage own lessons"
  (FOR ALL). \<open>Rev001\<close>: "Anyone can view active lessons", "Teachers can view their own
  lessons", "Admins can view all lessons".
\<close>

fun lessons_select_policy :: "revision \<Rightarrow> uuid option \<Rightarrow> database \<Rightarrow> lesson \<Rightarrow> bool" where
  "lessons_select_policy Rev000 uid db l =
     (l_is_active l = Some True \<or> uid = Some (l_teacher_id l))"
| "lessons_select_policy Rev001 uid db l =
     (l_is_active l = Some True \<or> uid = Some (l_teacher_id l) \<or> is_admin uid db)"

text \<open>
  bookings. SELECT. \<open>Rev000\<close>: "Users can view own bookings". \<open>Rev001\<close>: "Students can
  view their own bookings", "Teachers can view their bookings", "Admins can view all
  bookings". INSERT. \<open>Rev000\<close>: "Students can create bookings". \<open>Rev001\<close>: "Students can
  insert their own bookings"; both are \<^verbatim>\<open>WITH CHECK (student_id = auth.uid())\<close>. UPDATE.
  \<open>Rev000\<close>: "Teachers and students can update own bookings". \<open>Rev001\<close>: "Teachers can
  update their bookings status", "Students can update their bookings".
\<close>

fun bookings_select_policy :: "revision \<Rightarrow> uuid option \<Rightarrow> database \<Rightarrow> booking \<Rightarrow> bool" where
  "bookings_select_policy Rev000 uid db b =
     (uid = Some (b_student_id b) \<or> uid = Some (b_teacher_id b))"
| "bookings_select_policy Rev001 uid db b =
     (uid = Some (b_student_id b) \<or> uid = Some (b_teacher_id b) \<or> is_admin uid db)"

fun bookings_insert_policy :: "revision \<Rightarrow> uuid option \<Rightarrow> database \<Rightarrow> booking \<Rightarrow> bool" where
  "bookings_insert_policy Rev000 uid db b = (uid = Some (b_student_id b))"
| "bookings_insert_policy Rev001 uid db b = (uid = Some (b_student_id b))"

fun bookings_update_policy :: "revision \<Rightarrow> uuid option \<Rightarrow> database \<Rightarrow> booking \<Rightarrow> bool" where
  "bookings_update_policy Rev000 uid db b =
     (uid = Some (b_student_id b) \<or> uid = Some (b_teacher_id b))"
| "bookings_update_policy Rev001 uid db b =
     (uid = Some (b_teacher_id b) \<or> uid = Some (b_student_id b))"

text \<open>
  transactions. \<open>Rev000\<close>: "Users can view own transactions", "System can manage
  transactions" (FOR ALL, admin). \<open>Rev001\<close>: "Students can view their transactions",
  "Teachers can view their transactions", "Admins can view all transactions"; "System
  can insert transactions" \<^verbatim>\<open>WITH CHECK (true)\<close>; no policy for UPDATE.
\<close>

fun transactions_select_policy ::
  "revision \<Rightarrow> uuid option \<Rightarrow> database \<Rightarrow> transaction_row \<Rightarrow> bool" where
  "transactions_select_policy Rev000 uid db t =
     ((uid = Some (t_student_id t) \<or> uid = Some (t_teacher_id t)) \<or> is_admin uid db)"
| "transactions_select_policy Rev001 uid db t =
     (uid = Some (t_student_id t) \<or> uid = Some (t_teacher_id t) \<or> is_admin uid db)"

fun transactions_insert_policy ::
  "revision \<Rightarrow> uuid option \<Rightarrow> database \<Rightarrow> transaction_row \<Rightarrow> bool" where
  "transactions_insert_policy Rev000 uid db t = is_admin uid db"
| "transactions_insert_policy Rev001 uid db t = True"

fun transactions_update_policy ::
  "revision \<Rightarrow> uuid option \<Rightarrow> database \<Rightarrow> transaction_row \<Rightarrow> bool" where
  "transactions_update_policy Rev000 uid db t = is_admin uid db"
| "transactions_update_policy Rev001 uid db t = False"

text \<open>
  reviews. \<open>Rev000\<close>: "Anyone can view reviews", "Students can create reviews for
  completed bookings"; no policy for UPDATE. \<open>Rev001\<close>: "Anyone can view reviews",
  "Students can insert reviews for their bookings", "Students can update their own
  reviews". In the subquery, \<open>id\<close>, \<open>student_id\<close> and \<open>status\<close> are columns of bookings and
  \<open>booking_id\<close> is the column of the review; the subquery reads the bookings that the
  SELECT policies of bookings let the caller see.
\<close>

fun reviews_select_policy :: "revision \<Rightarrow> uuid option \<Rightarrow> database \<Rightarrow> review \<Rightarrow> bool" where
  "reviews_select_policy v uid db r = True"

fun reviews_insert_policy :: "revision \<Rightarrow> uuid option \<Rightarrow> database \<Rightarrow> review \<Rightarrow> bool" where
  "reviews_insert_policy Rev000 uid db r =
     (uid = Some (r_student_id r) \<and>
      list_ex (\<lambda>b. b_id b = r_booking_id r \<and> b_status b = Some Completed)
        (filter (bookings_select_policy Rev000 uid db) (bookings db)))"
| "reviews_insert_policy Rev001 uid db r =
     (uid = Some (r_student_id r) \<and>
      list_ex (\<lambda>b. b_id b = r_booking_id r \<and> uid = Some (b_student_id b)
                  \<and> b_status b = Some Completed)
        (filter (bookings_select_policy Rev001 uid db) (bookings db)))"

fun reviews_update_policy :: "revision \<Rightarrow> uuid option \<Rightarrow> database \<Rightarrow> review \<Rightarrow> bool" where
  "reviews_update_policy Rev000 uid db r = False"
| "reviews_update_policy Rev001 uid db r = (uid = Some (r_student_id r))"

subsection \<open>Texts\<close>

definition ascii :: "string \<Rightarrow> pg_text" where
  "ascii s = map of_char s"

text \<open>
  An assignment to a VARCHAR(n) column: a longer text raises unless the characters beyond
  \<open>n\<close> are all spaces, which are cut off.
\<close>

definition varchar :: "nat \<Rightarrow> pg_text \<Rightarrow> error + pg_text" where
  "varchar n s =
     (if length s \<le> n then Inr s
      else if list_all (\<lambda>ch. ch = 32) (drop n s) then Inr (take n s)
      else Inl StringDataRightTruncation)"

text \<open>The same for a column that may be NULL.\<close>

definition varchar_opt :: "nat \<Rightarrow> pg_text option \<Rightarrow> error + pg_text option" where
  "varchar_opt n x =
     (case x of
        None \<Rightarrow> Inr None
      | Some s \<Rightarrow> (case varchar n s of Inl err \<Rightarrow> Inl err | Inr s' \<Rightarrow> Inr (Some s')))"

text \<open>
  The labels of the role: the input of the enum type user_type of \<open>Rev001\<close>, and the
  values the CHECK constraint of \<open>Rev000\<close> admits. Any other text has no role.
\<close>

definition cast_user_type :: "pg_text \<Rightarrow> user_type option" where
  "cast_user_type s =
     (if s = ascii ''teacher'' then Some Teacher
      else if s = ascii ''student'' then Some Student
      else if s = ascii ''admin'' then Some Admin
      else None)"

text \<open>
  The name a profile gets when the metadata has none: \<^verbatim>\<open>'User'\<close> in \<open>Rev000\<close>, an Arabic
  text of eleven characters ("new user") in \<open>Rev001\<close>.
\<close>

fun default_full_name :: "revision \<Rightarrow> pg_text" where
  "default_full_name Rev000 = ascii ''User''"
| "default_full_name Rev001 = [1605, 1587, 1578, 1582, 1583, 1605, 32, 1580, 1583, 1610, 1583]"

subsection \<open>Identity bootstrap: handle_new_user\<close>

text \<open>
  The row of auth.users the trigger on_auth_user_created fires for: \<open>u_meta_full_name\<close>
  is \<^verbatim>\<open>raw_user_meta_data->>'full_name'\<close> and \<open>u_meta_user_type\<close> is
  \<^verbatim>\<open>raw_user_meta_data->>'user_type'\<close>, NULL when the key is absent.
\<close>

record new_user =
  u_id :: uuid
  u_email :: "pg_text option"
  u_meta_full_name :: "pg_text option"
  u_meta_user_type :: "pg_text option"

definition coalesce :: "'a option \<Rightarrow> 'a \<Rightarrow> 'a" where
  "coalesce x d = (case x of None \<Rightarrow> d | Some y \<Rightarrow> y)"

text \<open>The row the INSERT of handle_new_user builds, the other columns at their DEFAULT.\<close>

definition new_profile :: "uuid \<Rightarrow> pg_text \<Rightarrow> pg_text \<Rightarrow> user_type \<Rightarrow> timestamp \<Rightarrow> profile" where
  "new_profile i email full_name role now =
     \<lparr>p_id = i, p_email = email, p_full_name = full_name, p_avatar_url = None,
      p_user_type = role, p_phone = None, p_bio = None, p_experience_years = Some 0,
      p_hourly_rate = Some 0, p_is_verified = Some False, p_rating = Some 0,
      p_total_students = Some 0, p_total_lessons = Some 0,
      p_created_at = now, p_updated_at = now\<rparr>"

text \<open>
  handle_new_user is SECURITY DEFINER: its INSERT is not subject to the policies of
  profiles (which have none for INSERT). The values are computed first (\<open>Rev001\<close> casts
  the role to the enum, \<open>Rev000\<close> assigns to VARCHAR(255), VARCHAR(100) and VARCHAR(20)),
  then the NOT NULL and CHECK constraints are tested, then the unique indexes: the
  primary key in both revisions, and \<^verbatim>\<open>email TEXT UNIQUE\<close> in \<open>Rev001\<close>. An error makes the
  trigger fail, and with it the registration.
\<close>

fun handle_new_user :: "revision \<Rightarrow> database \<Rightarrow> new_user \<Rightarrow> timestamp \<Rightarrow> error + database" where
  "handle_new_user Rev000 db new now =
     (case (case u_email new of None \<Rightarrow> Inr None
            | Some e \<Rightarrow> (case varchar 255 e of Inl err \<Rightarrow> Inl err | Inr e' \<Rightarrow> Inr (Some e'))) of
        Inl err \<Rightarrow> Inl err
      | Inr email \<Rightarrow>
     (case varchar 100 (coalesce (u_meta_full_name new) (default_full_name Rev000)) of
        Inl err \<Rightarrow> Inl err
      | Inr full_name \<Rightarrow>
     (case varchar 20 (coalesce (u_meta_user_type new) (ascii ''student'')) of
        Inl err \<Rightarrow> Inl err
      | Inr role_text \<Rightarrow>
     (case email of
        None \<Rightarrow> Inl NotNullViolation
      | Some e \<Rightarrow>
     (case cast_user_type role_text of
        None \<Rightarrow> Inl CheckViolation
      | Some role \<Rightarrow>
          if u_id new \<in> set (map p_id (profiles db)) then Inl UniqueViolation
          else Inr (db\<lparr>profiles := profiles db @ [new_profile (u_id new) e full_name role now]\<rparr>))))))"
| "handle_new_user Rev001 db new now =
     (case cast_user_type (coalesce (u_meta_user_type new) (ascii ''student'')) of
        None \<Rightarrow> Inl InvalidTextRepresentation
      | Some role \<Rightarrow>
     (case u_email new of
        None \<Rightarrow> Inl NotNullViolation
      | Some e \<Rightarrow>
          if u_id new \<in> set (map p_id (profiles db)) then Inl UniqueViolation
          else if e \<in> set (map p_email (profiles db)) then Inl UniqueViolation
          else Inr (db\<lparr>profiles := profiles db @
                 [new_profile (u_id new) e
                    (coalesce (u_meta_full_name new) (default_full_name Rev001)) role now]\<rparr>)))"

subsection \<open>Lessons: what a caller reads\<close>

text \<open>
  \<^verbatim>\<open>SELECT * FROM lessons\<close> as the caller: the rows a SELECT policy lets through, or the
  error of the rewriting.
\<close>

definition select_lessons :: "revision \<Rightarrow> caller \<Rightarrow> database \<Rightarrow> error + lesson list" where
  "select_lessons v c db =
     (if policies_raise v c Lessons [Select] then Inl InvalidObjectDefinition
      else Inr (filter (\<lambda>l. rls c (\<lambda>uid. lessons_select_policy v uid db l)) (lessons db)))"

text \<open>
  The public listing, \<^verbatim>\<open>supabase.from('lessons').select(...).eq('is_active', true)\<close> of
  the home page: the rows of the caller's SELECT whose is_active is true.
\<close>

definition active_lessons :: "revision \<Rightarrow> caller \<Rightarrow> database \<Rightarrow> error + lesson list" where
  "active_lessons v c db =
     (case select_lessons v c db of
        Inl err \<Rightarrow> Inl err
      | Inr rows \<Rightarrow> Inr (filter (\<lambda>l. l_is_active l = Some True) rows))"

subsection \<open>Bookings: INSERT and UPDATE\<close>

text \<open>
  The values of an INSERT into bookings. The status may be left out, and then the
  column's \<^verbatim>\<open>DEFAULT 'pending'\<close> applies; the id is the generated or the given one.
\<close>

record booking_insert =
  bi_id :: uuid
  bi_lesson_id :: uuid
  bi_student_id :: uuid
  bi_teacher_id :: uuid
  bi_scheduled_at :: timestamp
  bi_status :: "booking_status option column_value"
  bi_meeting_link :: "pg_text option"
  bi_notes :: "pg_text option"

definition booking_of_insert :: "booking_insert \<Rightarrow> timestamp \<Rightarrow> booking" where
  "booking_of_insert ins now =
     \<lparr>b_id = bi_id ins, b_lesson_id = bi_lesson_id ins, b_student_id = bi_student_id ins,
      b_teacher_id = bi_teacher_id ins, b_scheduled_at = bi_scheduled_at ins,
      b_status = with_default (Some Pending) (bi_status ins),
      b_meeting_link = bi_meeting_link ins, b_notes = bi_notes ins,
      b_created_at = now, b_updated_at = now\<rparr>"

text \<open>
  No trigger fires for an INSERT into bookings, and its INSERT policy has no subquery.
  The row is tested against the INSERT policy, then the primary key, then the foreign
  keys to lessons(id) and profiles(id).
\<close>

definition insert_booking ::
  "revision \<Rightarrow> caller \<Rightarrow> database \<Rightarrow> booking_insert \<Rightarrow> timestamp \<Rightarrow> error + database" where
  "insert_booking v c db ins now =
     (let new = booking_of_insert ins now in
      if \<not> rls c (\<lambda>uid. bookings_insert_policy v uid db new) then Inl InsufficientPrivilege
      else if b_id new \<in> set (map b_id (bookings db)) then Inl UniqueViolation
      else if b_lesson_id new \<notin> set (map l_id (lessons db)) then Inl ForeignKeyViolation
      else if b_student_id new \<notin> set (map p_id (profiles db)) then Inl ForeignKeyViolation
      else if b_teacher_id new \<notin> set (map p_id (profiles db)) then Inl ForeignKeyViolation
      else Inr (db\<lparr>bookings := bookings db @ [new]\<rparr>))"

text \<open>
  \<^verbatim>\<open>UPDATE bookings SET ... WHERE id = bid\<close>, the SET clause given as the function \<open>f\<close> from
  the old row to the new one. In \<open>Rev001\<close> the trigger handle_bookings_updated_at sets
  updated_at before the row is stored. The id of a booking that a transaction or a
  review refers to cannot change (the foreign keys have no ON UPDATE action).
\<close>

fun bookings_before_update :: "revision \<Rightarrow> booking \<Rightarrow> timestamp \<Rightarrow> booking" where
  "bookings_before_update Rev000 new now = new"
| "bookings_before_update Rev001 new now = new\<lparr>b_updated_at := now\<rparr>"

definition update_booking ::
  "revision \<Rightarrow> caller \<Rightarrow> database \<Rightarrow> uuid \<Rightarrow> (booking \<Rightarrow> booking) \<Rightarrow> timestamp
    \<Rightarrow> error + database" where
  "update_booking v c db bid f now =
     (if policies_raise v c Bookings [Select, Update] then Inl InvalidObjectDefinition
      else
        (case find (\<lambda>b. b_id b = bid) (bookings db) of
           None \<Rightarrow> Inr db
         | Some old \<Rightarrow>
             if \<not> rls c (\<lambda>uid. bookings_select_policy v uid db old
                               \<and> bookings_update_policy v uid db old) then Inr db
             else
               (let new = bookings_before_update v (f old) now in
                if \<not> rls c (\<lambda>uid. bookings_select_policy v uid db new
                                  \<and> bookings_update_policy v uid db new)
                then Inl InsufficientPrivilege
                else if b_id new \<noteq> bid \<and> b_id new \<in> set (map b_id (bookings db))
                then Inl UniqueViolation
                else if b_lesson_id new \<notin> set (map l_id (lessons db))
                then Inl ForeignKeyViolation
                else if b_student_id new \<notin> set (map p_id (profiles db))
                then Inl ForeignKeyViolation
                else if b_teacher_id new \<notin> set (map p_id (profiles db))
                then Inl ForeignKeyViolation
                else if b_id new \<noteq> bid
                        \<and> (bid \<in> set (map t_booking_id (transactions db))
                            \<or> bid \<in> set (map r_booking_id (reviews db)))
                then Inl ForeignKeyViolation
                else Inr (db\<lparr>bookings :=
                             map (\<lambda>b. if b_id b = bid then new else b) (bookings db)\<rparr>))))"

subsection \<open>Transactions: the commission trigger, INSERT and UPDATE\<close>

text \<open>
  calculate_transaction_amounts of \<open>Rev001\<close>. The product \<^verbatim>\<open>NEW.total_amount * 0.10\<close> is
  exact; the assignment to \<^verbatim>\<open>NEW.platform_commission\<close>, a DECIMAL(10,2) field, brings it
  to scale 2; the second assignment reads the field just written. An operand that is
  NULL makes the result NULL.
\<close>

definition calculate_transaction_amounts :: "transaction_row \<Rightarrow> transaction_row" where
  "calculate_transaction_amounts new =
     (let new1 = new\<lparr>t_platform_commission :=
                   (case t_total_amount new of None \<Rightarrow> None
                    | Some amount \<Rightarrow> Some (to_scale2 (of_scale2 amount * (10 / 100))))\<rparr>
      in new1\<lparr>t_teacher_amount :=
                   (case t_total_amount new1 of None \<Rightarrow> None
                    | Some amount \<Rightarrow>
                        (case t_platform_commission new1 of None \<Rightarrow> None
                         | Some commission \<Rightarrow>
                             Some (to_scale2 (of_scale2 amount - of_scale2 commission))))\<rparr>)"

text \<open>
  The BEFORE INSERT OR UPDATE row trigger of transactions:
  calculate_transaction_amounts_trigger in \<open>Rev001\<close>, none in \<open>Rev000\<close>.
\<close>

fun transactions_before_row :: "revision \<Rightarrow> transaction_row \<Rightarrow> transaction_row" where
  "transactions_before_row Rev000 new = new"
| "transactions_before_row Rev001 new = calculate_transaction_amounts new"

definition transaction_amount_is_null :: "transaction_row \<Rightarrow> bool" where
  "transaction_amount_is_null t =
     (t_total_amount t = None \<or> t_platform_commission t = None \<or> t_teacher_amount t = None)"

definition transaction_foreign_keys :: "database \<Rightarrow> transaction_row \<Rightarrow> bool" where
  "transaction_foreign_keys db t =
     (t_booking_id t \<in> set (map b_id (bookings db))
      \<and> t_student_id t \<in> set (map p_id (profiles db))
      \<and> t_teacher_id t \<in> set (map p_id (profiles db)))"

text \<open>
  The three amounts are DECIMAL(10,2) columns: a value written to one of them that does
  not fit raises 22003 when the row is formed, before any trigger sees it. (A value is
  given here at scale 2 already, as the column would round it.)
\<close>

definition amount_overflows :: "int option \<Rightarrow> bool" where
  "amount_overflows x = (case x of None \<Rightarrow> False | Some a \<Rightarrow> \<not> fits_decimal_10_2 a)"

definition transaction_amount_overflow :: "transaction_row \<Rightarrow> bool" where
  "transaction_amount_overflow t =
     (amount_overflows (t_total_amount t) \<or> amount_overflows (t_platform_commission t)
      \<or> amount_overflows (t_teacher_amount t))"

text \<open>
  The forming of the row to write, column by column: the three amounts, then, in \<open>Rev000\<close>,
  payment_method VARCHAR(50) and transaction_ref VARCHAR(100), which are TEXT in
  \<open>Rev001\<close>. (payment_status is given as one of its labels.)
\<close>

definition transactions_form_row :: "revision \<Rightarrow> transaction_row \<Rightarrow> error + transaction_row" where
  "transactions_form_row v row =
     (if transaction_amount_overflow row then Inl NumericValueOutOfRange
      else
        (case v of
           Rev000 \<Rightarrow>
             (case varchar_opt 50 (t_payment_method row) of
                Inl err \<Rightarrow> Inl err
              | Inr method \<Rightarrow>
                  (case varchar_opt 100 (t_transaction_ref row) of
                     Inl err \<Rightarrow> Inl err
                   | Inr ref \<Rightarrow>
                       Inr (row\<lparr>t_payment_method := method, t_transaction_ref := ref\<rparr>)))
         | Rev001 \<Rightarrow> Inr row))"

text \<open>
  \<^verbatim>\<open>INSERT INTO transactions\<close> of one row: the rewriting with the INSERT policies, the
  forming of the row, the BEFORE trigger, the WITH CHECK of the INSERT policy on the row
  the trigger returned, the NOT NULL constraints, the primary key, the foreign keys.
\<close>

definition insert_transaction ::
  "revision \<Rightarrow> caller \<Rightarrow> database \<Rightarrow> transaction_row \<Rightarrow> error + database" where
  "insert_transaction v c db row =
     (if policies_raise v c Transactions [Insert] then Inl InvalidObjectDefinition
      else
        (case transactions_form_row v row of
           Inl err \<Rightarrow> Inl err
         | Inr formed \<Rightarrow>
             (let new = transactions_before_row v formed in
              if \<not> rls c (\<lambda>uid. transactions_insert_policy v uid db new)
              then Inl InsufficientPrivilege
              else if transaction_amount_is_null new then Inl NotNullViolation
              else if t_id new \<in> set (map t_id (transactions db)) then Inl UniqueViolation
              else if \<not> transaction_foreign_keys db new then Inl ForeignKeyViolation
              else Inr (db\<lparr>transactions := transactions db @ [new]\<rparr>))))"

text \<open>
  \<^verbatim>\<open>UPDATE transactions SET ... WHERE id = tid\<close>, the SET clause given as the function \<open>f\<close>
  from the old row to the new one, computed for the row it is applied to. A row the
  caller's SELECT and UPDATE policies do not let through is not a target: the statement
  then updates nothing and raises nothing. The new row, after the BEFORE trigger, must
  pass the same policies. (The values of \<open>f\<close> are computed from the row: a SET clause of
  constants that do not fit their columns raises when the statement is planned, with or
  without a target row, and leaves the table as it was all the same.)
\<close>

definition update_transaction ::
  "revision \<Rightarrow> caller \<Rightarrow> database \<Rightarrow> uuid \<Rightarrow> (transaction_row \<Rightarrow> transaction_row)
    \<Rightarrow> error + database" where
  "update_transaction v c db tid f =
     (if policies_raise v c Transactions [Select, Update] then Inl InvalidObjectDefinition
      else
        (case find (\<lambda>t. t_id t = tid) (transactions db) of
           None \<Rightarrow> Inr db
         | Some old \<Rightarrow>
             if \<not> rls c (\<lambda>uid. transactions_select_policy v uid db old
                               \<and> transactions_update_policy v uid db old) then Inr db
             else
               (case transactions_form_row v (f old) of
                  Inl err \<Rightarrow> Inl err
                | Inr formed \<Rightarrow>
                    (let new = transactions_before_row v formed in
                     if \<not> rls c (\<lambda>uid. transactions_select_policy v uid db new
                                       \<and> transactions_update_policy v uid db new)
                     then Inl InsufficientPrivilege
                     else if transaction_amount_is_null new then Inl NotNullViolation
                     else if t_id new \<noteq> tid \<and> t_id new \<in> set (map t_id (transactions db))
                     then Inl UniqueViolation
                     else if \<not> transaction_foreign_keys db new then Inl ForeignKeyViolation
                     else Inr (db\<lparr>transactions :=
                                  map (\<lambda>t. if t_id t = tid then new else t)
                                    (transactions db)\<rparr>)))))"

text \<open>\<^verbatim>\<open>SELECT * FROM transactions\<close> as the caller.\<close>

definition select_transactions ::
  "revision \<Rightarrow> caller \<Rightarrow> database \<Rightarrow> error + transaction_row list" where
  "select_transactions v c db =
     (if policies_raise v c Transactions [Select] then Inl InvalidObjectDefinition
      else Inr (filter (\<lambda>t. rls c (\<lambda>uid. transactions_select_policy v uid db t))
                  (transactions db)))"

subsection \<open>Reviews and the rating of a teacher\<close>

text \<open>
  \<^verbatim>\<open>AVG(rating::decimal)\<close> is NULL over no row. The average is taken as the exact quotient;
  PostgreSQL computes it to at least sixteen significant digits, far more than the two
  decimals the column rating keeps of it.
\<close>

definition avg_numeric :: "int list \<Rightarrow> rat option" where
  "avg_numeric xs = (if xs = [] then None else Some (of_int (sum_list xs) / of_int (int (length xs))))"

text \<open>
  \<^verbatim>\<open>SELECT COALESCE(AVG(rating::decimal), 0) FROM reviews WHERE teacher_id = tid\<close>
  (every caller reads every review: the SELECT policy of reviews is true).
\<close>

definition teacher_avg_rating :: "database \<Rightarrow> uuid \<Rightarrow> rat" where
  "teacher_avg_rating db tid =
     coalesce (avg_numeric (map r_rating (filter (\<lambda>r. r_teacher_id r = tid) (reviews db)))) 0"

text \<open>
  The rows of profiles that an UPDATE with \<^verbatim>\<open>WHERE id = pid\<close> by this caller changes: those
  its SELECT and UPDATE policies let through.
\<close>

definition profile_update_target ::
  "revision \<Rightarrow> caller \<Rightarrow> database \<Rightarrow> uuid \<Rightarrow> profile \<Rightarrow> bool" where
  "profile_update_target v c db pid p =
     (p_id p = pid \<and> rls c (\<lambda>uid. profiles_select_policy v uid db p
                                   \<and> profiles_update_policy v uid db p))"

text \<open>
  \<^verbatim>\<open>UPDATE profiles SET rating = x, updated_at = timezone('utc', now()) WHERE id = pid\<close>
  where \<open>x\<close> is computed for each target row, as the subquery of update_teacher_stats is:
  the rewriting with the SELECT and UPDATE policies of profiles comes first; the value is
  brought to DECIMAL(3,2) for a target row, and raises when it does not fit. Neither
  policy reads a column the statement changes, so the new row passes whenever the old
  one did. (In \<open>Rev001\<close> the trigger handle_profiles_updated_at sets updated_at to the same
  instant.)
\<close>

definition set_profile_rating ::
  "revision \<Rightarrow> caller \<Rightarrow> database \<Rightarrow> uuid \<Rightarrow> rat option \<Rightarrow> timestamp \<Rightarrow> error + database" where
  "set_profile_rating v c db pid x now =
     (if policies_raise v c Profiles [Select, Update] then Inl InvalidObjectDefinition
      else if \<not> list_ex (profile_update_target v c db pid) (profiles db) then Inr db
      else if (case x of None \<Rightarrow> False | Some q \<Rightarrow> \<not> fits_decimal_3_2 (to_scale2 q))
      then Inl NumericValueOutOfRange
      else Inr (db\<lparr>profiles :=
                   map (\<lambda>p. if profile_update_target v c db pid p
                            then p\<lparr>p_rating := map_option to_scale2 x, p_updated_at := now\<rparr>
                            else p) (profiles db)\<rparr>))"

text \<open>
  The same statement written by a caller with a constant for \<open>x\<close>: a constant that does
  not fit DECIMAL(3,2) raises when the statement is planned, after the rewriting and
  whether or not a row is a target.
\<close>

definition update_profile_rating ::
  "revision \<Rightarrow> caller \<Rightarrow> database \<Rightarrow> uuid \<Rightarrow> rat option \<Rightarrow> timestamp \<Rightarrow> error + database" where
  "update_profile_rating v c db pid x now =
     (if policies_raise v c Profiles [Select, Update] then Inl InvalidObjectDefinition
      else if (case x of None \<Rightarrow> False | Some q \<Rightarrow> \<not> fits_decimal_3_2 (to_scale2 q))
      then Inl NumericValueOutOfRange
      else set_profile_rating v c db pid x now)"

datatype tg_op = INSERT | UPDATE | DELETE

text \<open>
  update_teacher_stats of \<open>Rev001\<close>. The function is not SECURITY DEFINER (handle_new_user
  is): its UPDATE of profiles runs as the caller of the statement that fired the
  trigger, under that caller's policies, and an error of it undoes that statement. The
  two branches are the same statement.
\<close>

definition update_teacher_stats ::
  "tg_op \<Rightarrow> caller \<Rightarrow> database \<Rightarrow> review \<Rightarrow> timestamp \<Rightarrow> error + database" where
  "update_teacher_stats tg c db new now =
     (case tg of
        INSERT \<Rightarrow>
          set_profile_rating Rev001 c db (r_teacher_id new)
            (Some (teacher_avg_rating db (r_teacher_id new))) now
      | UPDATE \<Rightarrow>
          set_profile_rating Rev001 c db (r_teacher_id new)
            (Some (teacher_avg_rating db (r_teacher_id new))) now
      | DELETE \<Rightarrow> Inr db)"

text \<open>
  The AFTER INSERT OR UPDATE row trigger of reviews: update_teacher_stats_trigger in
  \<open>Rev001\<close>, none in \<open>Rev000\<close>. It sees the table with the written row in it.
\<close>

fun reviews_after_row ::
  "revision \<Rightarrow> tg_op \<Rightarrow> caller \<Rightarrow> database \<Rightarrow> review \<Rightarrow> timestamp \<Rightarrow> error + database" where
  "reviews_after_row Rev000 tg c db new now = Inr db"
| "reviews_after_row Rev001 tg c db new now = update_teacher_stats tg c db new now"

definition review_rating_check :: "review \<Rightarrow> bool" where
  "review_rating_check r = (r_rating r \<ge> 1 \<and> r_rating r \<le> 5)"

definition review_foreign_keys :: "database \<Rightarrow> review \<Rightarrow> bool" where
  "review_foreign_keys db r =
     (r_booking_id r \<in> set (map b_id (bookings db))
      \<and> r_student_id r \<in> set (map p_id (profiles db))
      \<and> r_teacher_id r \<in> set (map p_id (profiles db)))"

text \<open>
  \<^verbatim>\<open>INSERT INTO reviews\<close> of one row: the rewriting with the INSERT policies, the WITH
  CHECK of the INSERT policy, the CHECK on rating, the primary key, the foreign keys,
  then the AFTER trigger.
\<close>

definition insert_review ::
  "revision \<Rightarrow> caller \<Rightarrow> database \<Rightarrow> review \<Rightarrow> timestamp \<Rightarrow> error + database" where
  "insert_review v c db new now =
     (if policies_raise v c Reviews [Insert] then Inl InvalidObjectDefinition
      else if \<not> rls c (\<lambda>uid. reviews_insert_policy v uid db new) then Inl InsufficientPrivilege
      else if \<not> review_rating_check new then Inl CheckViolation
      else if r_id new \<in> set (map r_id (reviews db)) then Inl UniqueViolation
      else if \<not> review_foreign_keys db new then Inl ForeignKeyViolation
      else reviews_after_row v INSERT c (db\<lparr>reviews := reviews db @ [new]\<rparr>) new now)"

text \<open>
  \<^verbatim>\<open>UPDATE reviews SET ... WHERE id = rid\<close>, the SET clause given as the function \<open>f\<close>.
\<close>

definition update_review ::
  "revision \<Rightarrow> caller \<Rightarrow> database \<Rightarrow> uuid \<Rightarrow> (review \<Rightarrow> review) \<Rightarrow> timestamp
    \<Rightarrow> error + database" where
  "update_review v c db rid f now =
     (if policies_raise v c Reviews [Select, Update] then Inl InvalidObjectDefinition
      else
        (case find (\<lambda>r. r_id r = rid) (reviews db) of
           None \<Rightarrow> Inr db
         | Some old \<Rightarrow>
             if \<not> rls c (\<lambda>uid. reviews_select_policy v uid db old
                               \<and> reviews_update_policy v uid db old) then Inr db
             else
               (let new = f old in
                if \<not> rls c (\<lambda>uid. reviews_select_policy v uid db new
                                  \<and> reviews_update_policy v uid db new)
                then Inl InsufficientPrivilege
                else if \<not> review_rating_check new then Inl CheckViolation
                else if r_id new \<noteq> rid \<and> r_id new \<in> set (map r_id (reviews db))
                then Inl UniqueViolation
                else if \<not> review_foreign_keys db new then Inl ForeignKeyViolation
                else reviews_after_row v UPDATE c
                       (db\<lparr>reviews := map (\<lambda>r. if r_id r = rid then new else r) (reviews db)\<rparr>)
                       new now)))"

subsection \<open>Sequences of statements\<close>

datatype statement =
    New_User new_user timestamp
  | Insert_Booking caller booking_insert timestamp
  | Update_Booking caller uuid "booking \<Rightarrow> booking" timestamp
  | Insert_Transaction caller transaction_row
  | Update_Transaction caller uuid "transaction_row \<Rightarrow> transaction_row"
  | Insert_Review caller review timestamp
  | Update_Review caller uuid "review \<Rightarrow> review" timestamp
  | Set_Profile_Rating caller uuid "rat option" timestamp

fun execute :: "revision \<Rightarrow> database \<Rightarrow> statement \<Rightarrow> error + database" where
  "execute v db (New_User new now) = handle_new_user v db new now"
| "execute v db (Insert_Booking c ins now) = insert_booking v c db ins now"
| "execute v db (Update_Booking c bid f now) = update_booking v c db bid f now"
| "execute v db (Insert_Transaction c row) = insert_transaction v c db row"
| "execute v db (Update_Transaction c tid f) = update_transaction v c db tid f"
| "execute v db (Insert_Review c new now) = insert_review v c db new now"
| "execute v db (Update_Review c rid f now) = update_review v c db rid f now"
| "execute v db (Set_Profile_Rating c pid x now) = update_profile_rating v c db pid x now"

text \<open>A statement that raises leaves the database as it was; the next one runs on it.\<close>

fun run :: "revision \<Rightarrow> database \<Rightarrow> statement list \<Rightarrow> database" where
  "run v db [] = db"
| "run v db (s # ss) = run v (case execute v db s of Inl err \<Rightarrow> db | Inr db' \<Rightarrow> db') ss"

text \<open>The statements that write the column rating of profiles themselves.\<close>

fun writes_rating_directly :: "statement \<Rightarrow> bool" where
  "writes_rating_directly (Set_Profile_Rating c pid x now) = True"
| "writes_rating_directly s = False"

text \<open>The rating of a profile is a value between 0.00 and 5.00.\<close>

definition profile_rating_in_range :: "profile \<Rightarrow> bool" where
  "profile_rating_in_range p = (case p_rating p of None \<Rightarrow> False | Some r \<Rightarrow> 0 \<le> r \<and> r \<le> 500)"

text \<open>Every profile has such a rating and every review satisfies the CHECK on its rating.\<close>

definition ratings_invariant :: "database \<Rightarrow> bool" where
  "ratings_invariant db =
     (list_all profile_rating_in_range (profiles db) \<and> list_all review_rating_check (reviews db))"

subsection \<open>A concrete database\<close>

text \<open>
  The scenario of the specification: the teacher T1 (id 1), the student S1 (id 2), an
  admin (id 3), the active lesson L1 (id 10) and an inactive lesson (id 11) of T1, and
  the booking B1 (id 20) of S1 for L1, completed.
\<close>

definition example_teacher :: profile where
  "example_teacher = new_profile 1 (ascii ''t1@example.org'') (ascii ''T1'') Teacher 0"

definition example_student :: profile where
  "example_student = new_profile 2 (ascii ''s1@example.org'') (ascii ''S1'') Student 0"

definition example_admin :: profile where
  "example_admin = new_profile 3 (ascii ''admin@example.org'') (ascii ''A'') Admin 0"

definition example_lesson :: lesson where
  "example_lesson =
     \<lparr>l_id = 10, l_teacher_id = 1, l_subject_id = 100, l_title = ascii ''L1'',
      l_description = ascii ''algebra'', l_duration_minutes = 60, l_price = 10000,
      l_max_students = Some 1, l_difficulty_level = Some Beginner, l_is_active = Some True,
      l_created_at = 1, l_updated_at = 1\<rparr>"

definition example_inactive_lesson :: lesson where
  "example_inactive_lesson = example_lesson\<lparr>l_id := 11, l_is_active := Some False\<rparr>"

definition example_booking :: booking where
  "example_booking =
     \<lparr>b_id = 20, b_lesson_id = 10, b_student_id = 2, b_teacher_id = 1, b_scheduled_at = 5,
      b_status = Some Completed, b_meeting_link = None, b_notes = None,
      b_created_at = 2, b_updated_at = 3\<rparr>"

definition example_db :: database where
  "example_db =
     \<lparr>profiles = [example_teacher, example_student, example_admin],
      lessons = [example_lesson, example_inactive_lesson],
      bookings = [example_booking], transactions = [], reviews = []\<rparr>"

text \<open>A payment of 100.00 for B1 whose writer supplies a commission of 50.00 and 50.00 for the teacher.\<close>

definition example_payment :: transaction_row where
  "example_payment =
     \<lparr>t_id = 40, t_booking_id = 20, t_student_id = 2, t_teacher_id = 1,
      t_total_amount = Some 10000, t_platform_commission = Some 5000,
      t_teacher_amount = Some 5000, t_payment_status = Some Payment_Pending,
      t_payment_method = None, t_transaction_ref = None, t_created_at = 6\<rparr>"

text \<open>A review of T1 for the booking B1, written by the profile \<open>author\<close>.\<close>

definition example_review :: "uuid \<Rightarrow> uuid \<Rightarrow> int \<Rightarrow> review" where
  "example_review i author rating =
     \<lparr>r_id = i, r_booking_id = 20, r_student_id = author, r_teacher_id = 1,
      r_rating = rating, r_comment = None, r_created_at = 7\<rparr>"

text \<open>A booking of S1 for the inactive lesson, naming S1 as the teacher, already completed.\<close>

definition example_booking_insert :: booking_insert where
  "example_booking_insert =
     \<lparr>bi_id = 21, bi_lesson_id = 11, bi_student_id = 2, bi_teacher_id = 2,
      bi_scheduled_at = 9, bi_status = Given (Some Completed),
      bi_meeting_link = None, bi_notes = None\<rparr>"

text \<open>A registration whose metadata asks for a role the schema does not have.\<close>

definition example_registration :: new_user where
  "example_registration =
     \<lparr>u_id = 4, u_email = Some (ascii ''m@example.org''), u_meta_full_name = None,
      u_meta_user_type = Some (ascii ''moderator'')\<rparr>"

section \<open>Properties\<close>

subsection \<open>Evaluation and arithmetic\<close>

lemma floor_rat_numeral: "\<lfloor>numeral a / numeral b :: rat\<rfloor> = numeral a div numeral b"
  by (metis floor_divide_of_int_eq of_int_numeral)

lemmas example_defs =
  example_db_def example_teacher_def example_student_def example_admin_def
  example_lesson_def example_inactive_lesson_def example_booking_def example_payment_def
  example_review_def example_booking_insert_def example_registration_def
  new_profile_def ascii_def

text \<open>
  Which statements raise 42P17. In \<open>Rev000\<close> none does: its policies of profiles and of
  bookings have no subquery. In \<open>Rev001\<close> the policies of profiles read profiles, and so
  does every statement whose policies read profiles or bookings.
\<close>

lemma infinite_recursion_Rev000:
  "\<not> infinite_recursion Rev000 t [Select]"
  "\<not> infinite_recursion Rev000 t [Insert]"
  "\<not> infinite_recursion Rev000 t [Select, Update]"
  by (cases t; simp add: infinite_recursion_def)+

lemma infinite_recursion_Rev001:
  "infinite_recursion Rev001 Profiles [Select]"
  "infinite_recursion Rev001 Profiles [Select, Update]"
  "infinite_recursion Rev001 Lessons [Select]"
  "infinite_recursion Rev001 Bookings [Select]"
  "infinite_recursion Rev001 Bookings [Select, Update]"
  "\<not> infinite_recursion Rev001 Bookings [Insert]"
  "infinite_recursion Rev001 Transactions [Select]"
  "infinite_recursion Rev001 Transactions [Select, Update]"
  "\<not> infinite_recursion Rev001 Transactions [Insert]"
  "infinite_recursion Rev001 Reviews [Insert]"
  "\<not> infinite_recursion Rev001 Reviews [Select]"
  "\<not> infinite_recursion Rev001 Reviews [Select, Update]"
  by (simp_all add: infinite_recursion_def)

lemma policies_raise_simps:
  "policies_raise v Bypass_RLS t cmds = False"
  "policies_raise v (Auth uid) t cmds = infinite_recursion v t cmds"
  by (simp_all add: policies_raise_def)

lemmas statement_defs =
  insert_transaction_def update_transaction_def insert_review_def update_review_def
  insert_booking_def update_booking_def set_profile_rating_def update_profile_rating_def
  update_teacher_stats_def
  calculate_transaction_amounts_def transaction_amount_is_null_def
  transactions_form_row_def varchar_opt_def
  transaction_amount_overflow_def amount_overflows_def fits_decimal_10_2_def
  transaction_foreign_keys_def review_rating_check_def review_foreign_keys_def
  booking_of_insert_def profile_update_target_def teacher_avg_rating_def avg_numeric_def
  coalesce_def rls_def is_admin_def to_scale2_def of_scale2_def fits_decimal_3_2_def
  cast_user_type_def varchar_def select_lessons_def active_lessons_def
  select_transactions_def floor_rat_numeral
  policies_raise_simps infinite_recursion_Rev000 infinite_recursion_Rev001

lemma to_scale2_of_scale2: "to_scale2 (of_scale2 c) = c"
  unfolding to_scale2_def of_scale2_def
  by (simp; linarith)

lemma to_scale2_diff: "to_scale2 (of_scale2 a - of_scale2 b) = a - b"
proof -
  have "of_scale2 a - of_scale2 b = of_scale2 (a - b)"
    by (simp add: of_scale2_def diff_divide_distrib)
  then show ?thesis by (simp add: to_scale2_of_scale2)
qed

text \<open>
  For an amount that is not negative the coercion to scale 2 is \<open>round\<close>, which rounds a
  tie upwards.
\<close>

lemma commission_round:
  "0 \<le> a \<Longrightarrow> to_scale2 (of_scale2 a * (10 / 100)) = round (of_scale2 a * (10 / 100) * 100)"
  unfolding to_scale2_def of_scale2_def round_def
  by simp

subsection \<open>The commission trigger\<close>

lemma transactions_form_row_Rev001:
  "transactions_form_row Rev001 row
     = (if transaction_amount_overflow row then Inl NumericValueOutOfRange else Inr row)"
  by (simp add: transactions_form_row_def)

lemma calculate_transaction_amounts_Some:
  assumes "t_total_amount new = Some a" and "0 \<le> a"
  shows "calculate_transaction_amounts new =
    new\<lparr>t_platform_commission := Some (round (of_scale2 a * (10 / 100) * 100)),
        t_teacher_amount := Some (a - round (of_scale2 a * (10 / 100) * 100))\<rparr>"
proof -
  have c: "to_scale2 (of_scale2 a * (10 / 100)) = round (of_scale2 a * (10 / 100) * 100)"
    using assms(2) by (rule commission_round)
  have "calculate_transaction_amounts new =
    new\<lparr>t_platform_commission := Some (to_scale2 (of_scale2 a * (10 / 100))),
        t_teacher_amount :=
          Some (to_scale2 (of_scale2 a - of_scale2 (to_scale2 (of_scale2 a * (10 / 100)))))\<rparr>"
    unfolding calculate_transaction_amounts_def Let_def using assms(1) by simp
  then show ?thesis
    unfolding to_scale2_diff c .
qed

lemma calculate_transaction_amounts_ignores_supplied:
  "calculate_transaction_amounts (new\<lparr>t_platform_commission := x, t_teacher_amount := y\<rparr>)
     = calculate_transaction_amounts new"
  by (cases "t_total_amount new") (simp_all add: calculate_transaction_amounts_def Let_def)

text \<open>
  The assignments of the trigger cannot raise: from a total that fits DECIMAL(10,2) it
  computes a commission and a teacher amount that fit too.
\<close>

lemma calculate_transaction_amounts_fits:
  assumes "fits_decimal_10_2 a"
  shows "fits_decimal_10_2 (to_scale2 (of_scale2 a * (10 / 100)))
       \<and> fits_decimal_10_2 (a - to_scale2 (of_scale2 a * (10 / 100)))"
proof (cases "0 \<le> a")
  case True
  have "of_scale2 a * (10 / 100) * 100 + 1 / 2 = (of_int (2 * a + 10) :: rat) / of_int 20"
    by (simp add: of_scale2_def field_simps)
  then have "\<lfloor>of_scale2 a * (10 / 100) * 100 + 1 / 2\<rfloor> = (2 * a + 10) div 20"
    by (simp only: floor_divide_of_int_eq)
  moreover have "0 \<le> of_scale2 a * (10 / 100)"
    using True by (simp add: of_scale2_def)
  ultimately have r: "to_scale2 (of_scale2 a * (10 / 100)) = (2 * a + 10) div 20"
    by (simp add: to_scale2_def)
  have "0 \<le> (2 * a + 10) div 20" "(2 * a + 10) div 20 \<le> a"
    using True by linarith+
  then show ?thesis
    using assms True unfolding r fits_decimal_10_2_def by linarith
next
  case False
  have "- (of_scale2 a * (10 / 100)) * 100 + 1 / 2 = (of_int (- 2 * a + 10) :: rat) / of_int 20"
    by (simp add: of_scale2_def field_simps)
  then have "\<lfloor>- (of_scale2 a * (10 / 100)) * 100 + 1 / 2\<rfloor> = (- 2 * a + 10) div 20"
    by (simp only: floor_divide_of_int_eq)
  moreover have "\<not> 0 \<le> of_scale2 a * (10 / 100)"
    using False by (simp add: of_scale2_def)
  ultimately have r: "to_scale2 (of_scale2 a * (10 / 100)) = - ((- 2 * a + 10) div 20)"
    by (simp add: to_scale2_def)
  have "0 \<le> (- 2 * a + 10) div 20" "(- 2 * a + 10) div 20 \<le> - a"
    using False by linarith+
  then show ?thesis
    using assms False unfolding r fits_decimal_10_2_def by linarith
qed

text \<open>
  C1. In \<open>Rev001\<close>, the revision that has the trigger, a write of a transaction whose
  total amount \<open>a\<close> (in hundredths) is not negative stores the written row with its
  commission replaced by \<open>round (a * 0.10)\<close> at scale 2 and its teacher amount replaced by
  the total minus that commission, so that the two add up to the total exactly. This
  holds for an INSERT and for an UPDATE of any column; an UPDATE whose row is no target
  for the caller changes nothing.
\<close>

theorem transaction_amounts_derived:
  assumes "t_total_amount new = Some a" and "0 \<le> a"
    and "stored = new\<lparr>t_platform_commission := Some (round (of_scale2 a * (10 / 100) * 100)),
                      t_teacher_amount := Some (a - round (of_scale2 a * (10 / 100) * 100))\<rparr>"
  shows "(insert_transaction Rev001 c db new = Inr db'
            \<longrightarrow> transactions db' = transactions db @ [stored])
       \<and> (find (\<lambda>t. t_id t = tid) (transactions db) = Some old \<and> f old = new
            \<and> update_transaction Rev001 c db tid f = Inr db''
            \<longrightarrow> db'' = db
                \<or> transactions db'' = map (\<lambda>t. if t_id t = tid then stored else t) (transactions db))
       \<and> (\<exists>cm ta. t_platform_commission stored = Some cm \<and> t_teacher_amount stored = Some ta
            \<and> cm = round (of_scale2 a * (10 / 100) * 100) \<and> ta = a - cm \<and> cm + ta = a)"
proof (intro conjI impI)
  have calc: "calculate_transaction_amounts new = stored"
    using assms by (simp add: calculate_transaction_amounts_Some)
  show "transactions db' = transactions db @ [stored]"
    if "insert_transaction Rev001 c db new = Inr db'"
    using that calc by (auto simp: insert_transaction_def transactions_form_row_Rev001 Let_def split: if_splits)
  show "db'' = db \<or> transactions db'' = map (\<lambda>t. if t_id t = tid then stored else t) (transactions db)"
    if "find (\<lambda>t. t_id t = tid) (transactions db) = Some old \<and> f old = new
          \<and> update_transaction Rev001 c db tid f = Inr db''"
    using that calc by (auto simp: update_transaction_def transactions_form_row_Rev001 Let_def split: if_splits)
  show "\<exists>cm ta. t_platform_commission stored = Some cm \<and> t_teacher_amount stored = Some ta
            \<and> cm = round (of_scale2 a * (10 / 100) * 100) \<and> ta = a - cm \<and> cm + ta = a"
    using assms(3) by simp
qed

text \<open>
  C1, an instance. The payment of 100.00 of the scenario, inserted by the admin with a supplied commission
  of 50.00, is stored with commission 10.00 and teacher amount 90.00; updated by the
  table owner to a total of 25.05, it is stored with 2.51 (a tie, rounded away from zero)
  and 22.54.
\<close>

theorem transaction_amounts_derived_witness:
  "insert_transaction Rev001 (Auth (Some 3)) example_db example_payment
     = Inr (example_db\<lparr>transactions :=
          [example_payment\<lparr>t_platform_commission := Some 1000, t_teacher_amount := Some 9000\<rparr>]\<rparr>)
   \<and> update_transaction Rev001 Bypass_RLS
        (example_db\<lparr>transactions := [example_payment]\<rparr>) 40 (\<lambda>t. t\<lparr>t_total_amount := Some 2505\<rparr>)
     = Inr (example_db\<lparr>transactions :=
          [example_payment\<lparr>t_total_amount := Some 2505, t_platform_commission := Some 251,
                           t_teacher_amount := Some 2254\<rparr>]\<rparr>)
   \<and> transactions (example_db\<lparr>transactions :=
          [example_payment\<lparr>t_platform_commission := Some 1000, t_teacher_amount := Some 9000\<rparr>]\<rparr>)
     = transactions example_db
       @ [example_payment\<lparr>t_platform_commission := Some 1000, t_teacher_amount := Some 9000\<rparr>]"
  using transaction_amounts_derived
    [where new = example_payment and a = 10000 and c = "Auth (Some 3)" and db = example_db
       and stored = "example_payment\<lparr>t_platform_commission := Some 1000,
                                       t_teacher_amount := Some 9000\<rparr>"
       and db' = "example_db\<lparr>transactions :=
          [example_payment\<lparr>t_platform_commission := Some 1000, t_teacher_amount := Some 9000\<rparr>]\<rparr>"]
    transaction_amounts_derived
    [where new = "example_payment\<lparr>t_total_amount := Some 2505\<rparr>" and a = 2505
       and c = Bypass_RLS and db = "example_db\<lparr>transactions := [example_payment]\<rparr>"
       and tid = 40 and old = example_payment and f = "\<lambda>t. t\<lparr>t_total_amount := Some 2505\<rparr>"
       and stored = "example_payment\<lparr>t_total_amount := Some 2505,
                                       t_platform_commission := Some 251,
                                       t_teacher_amount := Some 2254\<rparr>"
       and db'' = "example_db\<lparr>transactions :=
          [example_payment\<lparr>t_total_amount := Some 2505, t_platform_commission := Some 251,
                           t_teacher_amount := Some 2254\<rparr>]\<rparr>"]
  by (simp add: example_defs statement_defs)

text \<open>
  In \<open>Rev001\<close> the values a writer supplies for the commission and the teacher amount
  decide nothing but whether they fit their columns: with values that fit, or NULL, an
  INSERT gives the same result (the same database, or the same error) whatever they
  are, and two INSERTs that differ only in them and both succeed store the same row.
\<close>

lemma insert_transaction_ignores_supplied:
  assumes "\<not> amount_overflows x" and "\<not> amount_overflows y"
    and "\<not> amount_overflows (t_platform_commission new)"
    and "\<not> amount_overflows (t_teacher_amount new)"
  shows "insert_transaction Rev001 c db (new\<lparr>t_platform_commission := x, t_teacher_amount := y\<rparr>)
     = insert_transaction Rev001 c db new"
  using assms
  by (simp add: insert_transaction_def transactions_form_row_Rev001 transaction_amount_overflow_def
      calculate_transaction_amounts_ignores_supplied)

lemma insert_transaction_stores_same:
  assumes "insert_transaction Rev001 c db (new\<lparr>t_platform_commission := x, t_teacher_amount := y\<rparr>)
             = Inr stored_x"
    and "insert_transaction Rev001 c db new = Inr stored"
  shows "stored_x = stored"
  using assms
  by (simp add: insert_transaction_def transactions_form_row_Rev001 calculate_transaction_amounts_ignores_supplied Let_def
      split: if_splits)

text \<open>
  C2 on \<open>Rev000\<close>, which has the table and no trigger on it. The admin (id 3) inserts the
  payment of 100.00 with a commission of 50.00 and a teacher amount of 50.00, and the
  row is stored as supplied; with 20.00 and 80.00 it is stored with these values. The
  stored commission is the supplied one, not a function of the total. In \<open>Rev001\<close> the two
  INSERTs store the same row.
\<close>

theorem supplied_commission_stored:
  "is_admin (Some 3) example_db
   \<and> t_total_amount example_payment = Some 10000
   \<and> t_platform_commission example_payment = Some 5000
   \<and> t_teacher_amount example_payment = Some 5000
   \<and> insert_transaction Rev000 (Auth (Some 3)) example_db example_payment
     = Inr (example_db\<lparr>transactions := [example_payment]\<rparr>)
   \<and> insert_transaction Rev000 (Auth (Some 3)) example_db
        (example_payment\<lparr>t_platform_commission := Some 2000, t_teacher_amount := Some 8000\<rparr>)
     = Inr (example_db\<lparr>transactions :=
          [example_payment\<lparr>t_platform_commission := Some 2000, t_teacher_amount := Some 8000\<rparr>]\<rparr>)
   \<and> insert_transaction Rev001 (Auth (Some 3)) example_db
        (example_payment\<lparr>t_platform_commission := Some 2000, t_teacher_amount := Some 8000\<rparr>)
     = insert_transaction Rev001 (Auth (Some 3)) example_db example_payment"
  by (simp add: example_defs statement_defs)

subsection \<open>Rounding and averages\<close>

lemma to_scale2_close: "\<bar>of_scale2 (to_scale2 x) - x\<bar> \<le> 1 / 200"
proof (cases "0 \<le> x")
  case True
  define k where "k = \<lfloor>x * 100 + 1 / 2\<rfloor>"
  have "of_int k \<le> x * 100 + 1 / 2" "x * 100 + 1 / 2 < of_int k + 1"
    unfolding k_def by linarith+
  then have "\<bar>of_int k / 100 - x\<bar> \<le> 1 / 200"
    by linarith
  then show ?thesis
    using True by (simp add: to_scale2_def of_scale2_def k_def)
next
  case False
  define k where "k = \<lfloor>- x * 100 + 1 / 2\<rfloor>"
  have "of_int k \<le> - x * 100 + 1 / 2" "- x * 100 + 1 / 2 < of_int k + 1"
    unfolding k_def by linarith+
  then have "\<bar>- of_int k / 100 - x\<bar> \<le> 1 / 200"
    by linarith
  then show ?thesis
    using False by (simp add: to_scale2_def of_scale2_def k_def)
qed

lemma to_scale2_bounds:
  assumes "0 \<le> x" and "x \<le> 5"
  shows "0 \<le> to_scale2 x \<and> to_scale2 x \<le> 500"
proof -
  have "0 \<le> \<lfloor>x * 100 + 1 / 2\<rfloor>"
    using assms(1) by (simp add: le_floor_iff)
  moreover have "\<lfloor>x * 100 + 1 / 2\<rfloor> \<le> 500"
    using assms(2) by (simp add: floor_le_iff)
  ultimately show ?thesis
    using assms(1) by (simp add: to_scale2_def)
qed

lemma sum_list_rating_bounds:
  "list_all (\<lambda>r. 1 \<le> r \<and> r \<le> (5::int)) rs
     \<Longrightarrow> int (length rs) \<le> sum_list rs \<and> sum_list rs \<le> 5 * int (length rs)"
  by (induction rs) auto

lemma avg_numeric_bounds:
  assumes "list_all (\<lambda>r. 1 \<le> r \<and> r \<le> (5::int)) rs"
  shows "0 \<le> coalesce (avg_numeric rs) 0 \<and> coalesce (avg_numeric rs) 0 \<le> 5"
proof (cases "rs = []")
  case True
  then show ?thesis by (simp add: avg_numeric_def coalesce_def)
next
  case False
  then have n: "0 < int (length rs)" by simp
  have s: "int (length rs) \<le> sum_list rs" "sum_list rs \<le> 5 * int (length rs)"
    using sum_list_rating_bounds[OF assms] by simp_all
  have "(0::rat) \<le> of_int (sum_list rs) / of_int (int (length rs))"
    using s(1) n by simp
  moreover have "of_int (sum_list rs) / of_int (int (length rs)) \<le> (5::rat)"
  proof -
    have "(of_int (sum_list rs) :: rat) \<le> of_int (5 * int (length rs))"
      using s(2) by (simp only: of_int_le_iff)
    then show ?thesis
      using n by (simp add: divide_le_eq)
  qed
  ultimately show ?thesis
    using False by (simp add: avg_numeric_def coalesce_def)
qed

lemma teacher_avg_rating_bounds:
  assumes "list_all review_rating_check (reviews db)"
  shows "0 \<le> teacher_avg_rating db t \<and> teacher_avg_rating db t \<le> 5"
proof -
  have "list_all (\<lambda>r. 1 \<le> r \<and> r \<le> (5::int))
          (map r_rating (filter (\<lambda>r. r_teacher_id r = t) (reviews db)))"
    using assms by (auto simp: list_all_iff review_rating_check_def)
  then show ?thesis
    unfolding teacher_avg_rating_def by (rule avg_numeric_bounds)
qed

subsection \<open>What a write of a review changes\<close>

lemma set_profile_rating_Inr:
  assumes "set_profile_rating v c db pid x now = Inr db'"
  shows "db' = db\<lparr>profiles :=
           map (\<lambda>p. if profile_update_target v c db pid p
                    then p\<lparr>p_rating := map_option to_scale2 x, p_updated_at := now\<rparr>
                    else p) (profiles db)\<rparr>"
proof (cases "list_ex (profile_update_target v c db pid) (profiles db)")
  case True
  then show ?thesis
    using assms by (simp add: set_profile_rating_def split: if_splits)
next
  case False
  then have "map (\<lambda>p. if profile_update_target v c db pid p
                    then p\<lparr>p_rating := map_option to_scale2 x, p_updated_at := now\<rparr>
                    else p) (profiles db) = profiles db"
    by (intro map_idI) (auto simp: list_ex_iff)
  then show ?thesis
    using assms False by (simp add: set_profile_rating_def split: if_splits)
qed

lemma set_profile_rating_Rev001_caller:
  assumes "set_profile_rating Rev001 c db pid x now = Inr db'"
  shows "c = Bypass_RLS"
  using assms
  by (cases c) (simp_all add: set_profile_rating_def policies_raise_simps infinite_recursion_Rev001)

lemma reviews_after_row_Inr:
  assumes "reviews_after_row v tg c db new now = Inr db'"
  shows "reviews db' = reviews db \<and> bookings db' = bookings db \<and> lessons db' = lessons db
       \<and> transactions db' = transactions db
       \<and> (db' = db \<or> v = Rev001 \<and> tg \<noteq> DELETE \<and> db' = db\<lparr>profiles :=
           map (\<lambda>p. if profile_update_target Rev001 c db (r_teacher_id new) p
                    then p\<lparr>p_rating := Some (to_scale2 (teacher_avg_rating db (r_teacher_id new))),
                           p_updated_at := now\<rparr>
                    else p) (profiles db)\<rparr>)"
proof (cases v)
  case Rev000
  then show ?thesis using assms by simp
next
  case Rev001
  show ?thesis
  proof (cases tg)
    case DELETE
    then show ?thesis using assms Rev001 by (simp add: update_teacher_stats_def)
  next
    case INSERT
    then have "set_profile_rating Rev001 c db (r_teacher_id new)
        (Some (teacher_avg_rating db (r_teacher_id new))) now = Inr db'"
      using assms Rev001 by (simp add: update_teacher_stats_def)
    from set_profile_rating_Inr[OF this] show ?thesis
      using Rev001 INSERT by simp
  next
    case UPDATE
    then have "set_profile_rating Rev001 c db (r_teacher_id new)
        (Some (teacher_avg_rating db (r_teacher_id new))) now = Inr db'"
      using assms Rev001 by (simp add: update_teacher_stats_def)
    from set_profile_rating_Inr[OF this] show ?thesis
      using Rev001 UPDATE by simp
  qed
qed

lemma insert_review_Inr:
  assumes "insert_review v c db new now = Inr db'"
  shows "review_rating_check new
       \<and> reviews_after_row v INSERT c (db\<lparr>reviews := reviews db @ [new]\<rparr>) new now = Inr db'"
  using assms by (simp add: insert_review_def split: if_splits)

lemma update_review_Inr:
  assumes "update_review v c db rid f now = Inr db'"
  shows "db' = db
       \<or> (\<exists>old. find (\<lambda>r. r_id r = rid) (reviews db) = Some old
            \<and> rls c (\<lambda>uid. reviews_update_policy v uid db old)
            \<and> review_rating_check (f old)
            \<and> reviews_after_row v UPDATE c
                 (db\<lparr>reviews := map (\<lambda>r. if r_id r = rid then f old else r) (reviews db)\<rparr>)
                 (f old) now = Inr db')"
  using assms
  by (auto simp: update_review_def Let_def rls_def split: option.splits if_splits caller.splits)

lemma update_teacher_stats_Inr:
  assumes "update_teacher_stats tg c db new now = Inr db'" and "tg \<noteq> DELETE"
  shows "db' = db\<lparr>profiles :=
           map (\<lambda>p. if profile_update_target Rev001 c db (r_teacher_id new) p
                    then p\<lparr>p_rating := Some (to_scale2 (teacher_avg_rating db (r_teacher_id new))),
                           p_updated_at := now\<rparr>
                    else p) (profiles db)\<rparr>"
proof -
  have "set_profile_rating Rev001 c db (r_teacher_id new)
        (Some (teacher_avg_rating db (r_teacher_id new))) now = Inr db'"
    using assms by (cases tg) (simp_all add: update_teacher_stats_def)
  from set_profile_rating_Inr[OF this] show ?thesis by simp
qed

lemma update_teacher_stats_caller:
  assumes "update_teacher_stats tg c db new now = Inr db'" and "tg \<noteq> DELETE"
  shows "c = Bypass_RLS"
proof -
  have "set_profile_rating Rev001 c db (r_teacher_id new)
        (Some (teacher_avg_rating db (r_teacher_id new))) now = Inr db'"
    using assms by (cases tg) (simp_all add: update_teacher_stats_def)
  then show ?thesis by (rule set_profile_rating_Rev001_caller)
qed

lemma teacher_rating_recomputed:
  assumes trig: "update_teacher_stats tg c db new now = Inr db'" and tg: "tg \<noteq> DELETE"
    and p: "p \<in> set (profiles db')" "p_id p = r_teacher_id new"
  shows "p_rating p = Some (to_scale2 (teacher_avg_rating db (r_teacher_id new)))
       \<and> p_updated_at p = now \<and> reviews db' = reviews db"
proof -
  let ?g = "\<lambda>p. if profile_update_target Rev001 c db (r_teacher_id new) p
                then p\<lparr>p_rating := Some (to_scale2 (teacher_avg_rating db (r_teacher_id new))),
                       p_updated_at := now\<rparr>
                else p"
  have c: "c = Bypass_RLS"
    using update_teacher_stats_caller[OF trig tg] .
  have db': "db' = db\<lparr>profiles := map ?g (profiles db)\<rparr>"
    using update_teacher_stats_Inr[OF trig tg] .
  then obtain q where q: "q \<in> set (profiles db)" "p = ?g q"
    using p(1) by auto
  have id: "p_id q = r_teacher_id new"
    using q(2) p(2) by (simp split: if_splits)
  have "profile_update_target Rev001 c db (r_teacher_id new) q"
    using c id by (simp add: profile_update_target_def rls_def)
  then show ?thesis
    using q(2) db' by simp
qed

subsection \<open>The rating of a teacher after a review is written\<close>

text \<open>
  Where a write of a review succeeds in \<open>Rev001\<close>, the trigger has recomputed the rating:
  after an INSERT, or an UPDATE that changes a review, every profile of the teacher of
  the written review holds the arithmetic mean of the ratings of all reviews stored for
  that teacher, brought to two decimals (so within 0.005 of the mean), and the instant of
  the write as updated_at. The written review is among those reviews.
\<close>

lemma teacher_rating_after_review_write:
  assumes wr: "insert_review Rev001 c db new now = Inr db'
      \<or> (find (\<lambda>r. r_id r = rid) (reviews db) = Some old \<and> f old = new
          \<and> rls c (\<lambda>uid. reviews_update_policy Rev001 uid db old)
          \<and> update_review Rev001 c db rid f now = Inr db')"
    and p: "p \<in> set (profiles db')" "p_id p = r_teacher_id new"
    and rs: "rs = map r_rating (filter (\<lambda>r. r_teacher_id r = r_teacher_id new) (reviews db'))"
  shows "rs \<noteq> []
       \<and> (\<exists>r. p_rating p = Some r
             \<and> r = to_scale2 (of_int (sum_list rs) / of_int (int (length rs)))
             \<and> \<bar>of_scale2 r - of_int (sum_list rs) / of_int (int (length rs))\<bar> \<le> 1 / 200)
       \<and> p_updated_at p = now"
proof -
  obtain tg mid where trig: "update_teacher_stats tg c mid new now = Inr db'"
    and tg: "tg \<noteq> DELETE" and mid: "new \<in> set (reviews mid)"
  proof -
    from wr show ?thesis
    proof
      assume "insert_review Rev001 c db new now = Inr db'"
      then have "update_teacher_stats INSERT c (db\<lparr>reviews := reviews db @ [new]\<rparr>) new now = Inr db'"
        using insert_review_Inr by fastforce
      then show ?thesis
        using that[of INSERT "db\<lparr>reviews := reviews db @ [new]\<rparr>"] by simp
    next
      assume u: "find (\<lambda>r. r_id r = rid) (reviews db) = Some old \<and> f old = new
          \<and> rls c (\<lambda>uid. reviews_update_policy Rev001 uid db old)
          \<and> update_review Rev001 c db rid f now = Inr db'"
      then have "update_teacher_stats UPDATE c
          (db\<lparr>reviews := map (\<lambda>r. if r_id r = rid then new else r) (reviews db)\<rparr>) new now = Inr db'"
        by (auto simp: update_review_def Let_def rls_def split: if_splits caller.splits)
      moreover have "old \<in> set (reviews db) \<and> r_id old = rid"
        using u by (auto simp: find_Some_iff)
      then have "new \<in> set (map (\<lambda>r. if r_id r = rid then new else r) (reviews db))"
        by force
      ultimately show ?thesis
        using that[of UPDATE "db\<lparr>reviews := map (\<lambda>r. if r_id r = rid then new else r) (reviews db)\<rparr>"]
        by simp
    qed
  qed
  have fact: "p_rating p = Some (to_scale2 (teacher_avg_rating mid (r_teacher_id new)))
       \<and> p_updated_at p = now \<and> reviews db' = reviews mid"
    using teacher_rating_recomputed[OF trig tg p] .
  have rs': "rs = map r_rating (filter (\<lambda>r. r_teacher_id r = r_teacher_id new) (reviews mid))"
    using rs fact by simp
  have ne: "rs \<noteq> []"
    using mid rs' by (auto simp: filter_empty_conv)
  have avg: "teacher_avg_rating mid (r_teacher_id new)
               = of_int (sum_list rs) / of_int (int (length rs))"
    using ne rs' by (simp add: teacher_avg_rating_def avg_numeric_def coalesce_def)
  show ?thesis
    using ne fact avg to_scale2_close[of "of_int (sum_list rs) / of_int (int (length rs))"]
    by simp
qed

text \<open>
  The rounding: the owner of the tables, who is not under the policies, inserts reviews
  rated 1, 1 and 2, and the rating stored is 1.33, where the mean is 4/3.
\<close>

lemma teacher_rating_rounded:
  "map r_rating (reviews (run Rev001 example_db
      [Insert_Review Bypass_RLS (example_review 30 2 1) 9,
       Insert_Review Bypass_RLS (example_review 31 2 1) 9,
       Insert_Review Bypass_RLS (example_review 32 2 2) 9])) = [1, 1, 2]
   \<and> map p_rating (filter (\<lambda>p. p_id p = 1) (profiles (run Rev001 example_db
      [Insert_Review Bypass_RLS (example_review 30 2 1) 9,
       Insert_Review Bypass_RLS (example_review 31 2 1) 9,
       Insert_Review Bypass_RLS (example_review 32 2 2) 9]))) = [Some 133]
   \<and> of_scale2 133 \<noteq> of_int (sum_list [1, 1, 2]) / of_int (int (length [1, 1, 2 :: int]))"
  by (simp add: example_defs statement_defs)

text \<open>
  A caller under the policies writes no review in \<open>Rev001\<close>. Its INSERT raises in the
  rewriting: the INSERT policy reads bookings, whose policies read profiles, whose
  policies read profiles. Its UPDATE of a review it may change passes the policies of
  reviews and fires the trigger, whose UPDATE of profiles raises; the UPDATE of the
  review is undone.
\<close>

lemma insert_review_Rev001_raises:
  "insert_review Rev001 (Auth uid) db new now = Inl InvalidObjectDefinition"
  by (simp add: insert_review_def policies_raise_simps infinite_recursion_Rev001)

lemma update_review_Rev001_changes_nothing:
  assumes "update_review Rev001 (Auth uid) db rid f now = Inr db'"
  shows "db' = db"
proof -
  from update_review_Inr[OF assms] show ?thesis
  proof
    assume "db' = db"
    then show ?thesis .
  next
    assume "\<exists>old. find (\<lambda>r. r_id r = rid) (reviews db) = Some old
            \<and> rls (Auth uid) (\<lambda>uid. reviews_update_policy Rev001 uid db old)
            \<and> review_rating_check (f old)
            \<and> reviews_after_row Rev001 UPDATE (Auth uid)
                 (db\<lparr>reviews := map (\<lambda>r. if r_id r = rid then f old else r) (reviews db)\<rparr>)
                 (f old) now = Inr db'"
    then obtain old where "update_teacher_stats UPDATE (Auth uid)
                 (db\<lparr>reviews := map (\<lambda>r. if r_id r = rid then f old else r) (reviews db)\<rparr>)
                 (f old) now = Inr db'"
      by auto
    from update_teacher_stats_caller[OF this] show ?thesis by simp
  qed
qed


subsection \<open>Who may insert a review\<close>

text \<open>
  The INSERT policy of \<open>Rev001\<close> asks for a completed booking of the caller; that of
  \<open>Rev000\<close> asks for a completed booking the caller can see, which is one the caller is
  the student or the teacher of.
\<close>

lemma reviews_insert_policy_Rev001:
  assumes "reviews_insert_policy Rev001 uid db new"
  shows "uid = Some (r_student_id new)
       \<and> list_ex (\<lambda>b. b_id b = r_booking_id new \<and> uid = Some (b_student_id b)
                     \<and> b_status b = Some Completed) (bookings db)"
  using assms by (auto simp: list_ex_iff)

lemma insert_review_Rev000_accepted:
  assumes "insert_review Rev000 (Auth uid) db new now = Inr db'"
  shows "uid = Some (r_student_id new)
       \<and> list_ex (\<lambda>b. b_id b = r_booking_id new \<and> b_status b = Some Completed
                     \<and> (uid = Some (b_student_id b) \<or> uid = Some (b_teacher_id b))) (bookings db)
       \<and> 1 \<le> r_rating new \<and> r_rating new \<le> 5"
  using assms
  by (auto simp: insert_review_def rls_def review_rating_check_def list_ex_iff split: if_splits)

text \<open>
  C4 on \<open>Rev000\<close>. The policy "Students can create reviews for completed bookings" does
  not compare the student of the booking with the caller. The booking B1 is a booking of
  the student S1 (id 2) with the teacher T1 (id 1): T1, who is not its student, inserts a
  review of it, naming T1 as the student and as the teacher, and the review is stored. In
  \<open>Rev001\<close> the same INSERT raises, and the expression of its policy, which has the
  comparison missing here, is false for it.
\<close>

theorem review_by_other_than_student_accepted:
  "example_booking \<in> set (bookings example_db)
   \<and> b_id example_booking = r_booking_id (example_review 30 1 5)
   \<and> b_student_id example_booking = 2 \<and> b_teacher_id example_booking = 1
   \<and> insert_review Rev000 (Auth (Some 1)) example_db (example_review 30 1 5) 9
     = Inr (example_db\<lparr>reviews := [example_review 30 1 5]\<rparr>)
   \<and> insert_review Rev001 (Auth (Some 1)) example_db (example_review 30 1 5) 9
     = Inl InvalidObjectDefinition
   \<and> \<not> reviews_insert_policy Rev001 (Some 1) example_db (example_review 30 1 5)"
  by (simp add: example_defs statement_defs)

subsection \<open>Identity bootstrap\<close>





lemma handle_new_user_profiles:
  assumes "handle_new_user v db new now = Inr db'"
  shows "\<exists>e n r. db' = db\<lparr>profiles := profiles db @ [new_profile (u_id new) e n r now]\<rparr>"
  using assms
  by (cases v) (fastforce split: option.splits sum.splits if_splits)+






subsection \<open>Creating a booking\<close>

text \<open>
  C6, as the code has it. An INSERT into bookings by a caller under the policies succeeds
  exactly when the row names the caller as its student, its id is new, and the lesson,
  the student and the teacher it names exist. Whether the lesson is active plays no
  part. The row stored has the teacher id that the INSERT gave, and the status that the
  INSERT gave, which is pending when it gave none.
\<close>

theorem booking_insert_conditions:
  "(insert_booking v (Auth uid) db ins now = Inr db') =
     (uid = Some (bi_student_id ins)
      \<and> bi_id ins \<notin> set (map b_id (bookings db))
      \<and> bi_lesson_id ins \<in> set (map l_id (lessons db))
      \<and> bi_student_id ins \<in> set (map p_id (profiles db))
      \<and> bi_teacher_id ins \<in> set (map p_id (profiles db))
      \<and> db' = db\<lparr>bookings := bookings db @
           [\<lparr>b_id = bi_id ins, b_lesson_id = bi_lesson_id ins, b_student_id = bi_student_id ins,
             b_teacher_id = bi_teacher_id ins, b_scheduled_at = bi_scheduled_at ins,
             b_status = (case bi_status ins of Omitted \<Rightarrow> Some Pending | Given s \<Rightarrow> s),
             b_meeting_link = bi_meeting_link ins, b_notes = bi_notes ins,
             b_created_at = now, b_updated_at = now\<rparr>]\<rparr>)"
proof -
  have st: "with_default (Some Pending) (bi_status ins)
              = (case bi_status ins of Omitted \<Rightarrow> Some Pending | Given s \<Rightarrow> s)"
    by (cases "bi_status ins") simp_all
  show ?thesis
    by (cases v) (auto simp: insert_booking_def booking_of_insert_def rls_def Let_def st)
qed

text \<open>
  C6 as it is stated fails: S1 books the inactive lesson of T1, names S1 as the
  teacher and gives the status completed, and the booking is stored as given.
\<close>

theorem booking_on_inactive_lesson_accepted:
  "example_inactive_lesson \<in> set (lessons example_db)
   \<and> l_id example_inactive_lesson = bi_lesson_id example_booking_insert
   \<and> l_is_active example_inactive_lesson = Some False
   \<and> l_teacher_id example_inactive_lesson = 1
   \<and> insert_booking Rev001 (Auth (Some 2)) example_db example_booking_insert 9
     = Inr (example_db\<lparr>bookings := [example_booking,
          \<lparr>b_id = 21, b_lesson_id = 11, b_student_id = 2, b_teacher_id = 2, b_scheduled_at = 9,
           b_status = Some Completed, b_meeting_link = None, b_notes = None,
           b_created_at = 9, b_updated_at = 9\<rparr>]\<rparr>)
   \<and> insert_booking Rev000 (Auth (Some 2)) example_db example_booking_insert 9
     = insert_booking Rev001 (Auth (Some 2)) example_db example_booking_insert 9"
  by (simp add: example_defs statement_defs)

subsection \<open>The public listing of lessons\<close>

text \<open>
  In \<open>Rev000\<close> the claim C7 holds: for every caller under the policies the public listing
  is the list of the lessons whose is_active is true, a lesson that is not active is read
  by its teacher and by no other such caller, and every lesson is among the rows its
  teacher reads.
\<close>

lemma select_lessons_Rev000:
  "select_lessons Rev000 (Auth uid) db
     = Inr (filter (\<lambda>l. l_is_active l = Some True \<or> uid = Some (l_teacher_id l)) (lessons db))"
  by (simp add: select_lessons_def policies_raise_simps infinite_recursion_Rev000 rls_def)

lemma active_lessons_Rev000:
  "active_lessons Rev000 (Auth uid) db
     = Inr (filter (\<lambda>l. l_is_active l = Some True) (lessons db))"
  unfolding active_lessons_def select_lessons_Rev000 sum.case filter_filter
  by (simp, rule filter_cong) auto

lemma teacher_reads_own_lessons_Rev000:
  assumes "l \<in> set (lessons db)"
  shows "\<exists>rows. select_lessons Rev000 (Auth (Some (l_teacher_id l))) db = Inr rows \<and> l \<in> set rows"
  using assms by (simp add: select_lessons_Rev000)

lemma select_lessons_Rev001_raises:
  "select_lessons Rev001 (Auth uid) db = Inl InvalidObjectDefinition"
  by (simp add: select_lessons_def policies_raise_simps infinite_recursion_Rev001)

text \<open>
  C7 on \<open>Rev001\<close>. The policy "Admins can view all lessons" selects from profiles, and
  "Admins can view all profiles", a policy of profiles, selects from profiles again: the
  rewriting of every SELECT on lessons by a caller under the policies stops with 42P17.
  So the public listing, for the anonymous caller as for every other, is an error and
  not the active lessons, and the teacher T1 reads no lesson, the inactive one included.
  In \<open>Rev000\<close> the same queries give the active lesson, and to T1 both lessons.
\<close>

theorem lesson_listing_raises:
  "active_lessons Rev001 (Auth uid) db = Inl InvalidObjectDefinition
   \<and> select_lessons Rev001 (Auth uid) db = Inl InvalidObjectDefinition
   \<and> lessons example_db = [example_lesson, example_inactive_lesson]
   \<and> l_is_active example_lesson = Some True
   \<and> l_is_active example_inactive_lesson = Some False
   \<and> l_teacher_id example_inactive_lesson = 1
   \<and> active_lessons Rev001 (Auth None) example_db = Inl InvalidObjectDefinition
   \<and> select_lessons Rev001 (Auth (Some 1)) example_db = Inl InvalidObjectDefinition
   \<and> active_lessons Rev000 (Auth None) example_db = Inr [example_lesson]
   \<and> select_lessons Rev000 (Auth (Some 1)) example_db
       = Inr [example_lesson, example_inactive_lesson]"
  by (simp add: active_lessons_def select_lessons_def policies_raise_simps
      infinite_recursion_Rev000 infinite_recursion_Rev001 rls_def example_defs)

subsection \<open>Access to transactions\<close>

text \<open>
  Reads and writes of transactions by a caller under the policies. In \<open>Rev000\<close> the caller
  reads a transaction exactly when it is its student, its teacher or an admin; an INSERT
  by a caller who is no admin raises; an UPDATE by such a caller changes nothing. In \<open>Rev001\<close> every SELECT and every UPDATE raises 42P17, since "Admins
  can view all transactions" selects from profiles.
\<close>

lemma select_transactions_Rev000:
  "select_transactions Rev000 (Auth uid) db
     = Inr (filter (\<lambda>t. uid = Some (t_student_id t) \<or> uid = Some (t_teacher_id t)
                        \<or> is_admin uid db) (transactions db))"
  by (simp add: select_transactions_def policies_raise_simps infinite_recursion_Rev000 rls_def
      disj_assoc)

lemma select_transactions_Rev001_raises:
  "select_transactions Rev001 (Auth uid) db = Inl InvalidObjectDefinition"
  by (simp add: select_transactions_def policies_raise_simps infinite_recursion_Rev001)

lemma insert_transaction_Rev000_refused:
  "\<not> is_admin uid db \<Longrightarrow>
     insert_transaction Rev000 (Auth uid) db row
       = (case transactions_form_row Rev000 row of
            Inl err \<Rightarrow> Inl err
          | Inr formed \<Rightarrow> Inl InsufficientPrivilege)"
  by (simp add: insert_transaction_def policies_raise_simps infinite_recursion_Rev000 rls_def
      split: sum.splits)

lemma update_transaction_Rev000_not_admin:
  "\<not> is_admin uid db \<Longrightarrow> run Rev000 db [Update_Transaction (Auth uid) tid f] = db"
  by (simp add: update_transaction_def policies_raise_simps infinite_recursion_Rev000 rls_def
      split: option.splits)

lemma update_transaction_Rev001_raises:
  "update_transaction Rev001 (Auth uid) db tid f = Inl InvalidObjectDefinition"
  by (simp add: update_transaction_def policies_raise_simps infinite_recursion_Rev001)

text \<open>
  C8 on \<open>Rev001\<close>. The policy "System can insert transactions" is
  \<^verbatim>\<open>WITH CHECK (true)\<close>: it lets every caller insert. The student S1 inserts a transaction
  and it is stored; the same INSERT is refused in \<open>Rev000\<close>, whose policy asks for an
  admin.
\<close>

theorem student_inserts_transaction:
  "example_student \<in> set (profiles example_db)
   \<and> p_id example_student = 2 \<and> p_user_type example_student = Student
   \<and> \<not> is_admin (Some 2) example_db
   \<and> insert_transaction Rev001 (Auth (Some 2)) example_db example_payment
     = Inr (example_db\<lparr>transactions :=
          [example_payment\<lparr>t_platform_commission := Some 1000, t_teacher_amount := Some 9000\<rparr>]\<rparr>)
   \<and> insert_transaction Rev000 (Auth (Some 2)) example_db example_payment
     = Inl InsufficientPrivilege"
  by (simp add: example_defs statement_defs)

subsection \<open>Several reviews of one booking\<close>

text \<open>
  C9, as the code has it. Neither revision has a uniqueness constraint on the booking of
  a review: every accepted INSERT stores one more row, also when the booking already has
  a review by the same student. The written review enters the average of its teacher
  beside the ones that were there, and in \<open>Rev001\<close> that average over all the rows, at two
  decimals, is the rating stored in the profile of the teacher; \<open>Rev000\<close> stores no
  rating, the profiles stay as they were. A rating is replaced, with the number of rows
  unchanged, only by an UPDATE of the row.
\<close>

theorem review_insert_stores_another_row:
  assumes "insert_review v c db new now = Inr db'"
    and "rs = map r_rating (filter (\<lambda>r. r_teacher_id r = r_teacher_id new) (reviews db))"
  shows "reviews db' = reviews db @ [new]
       \<and> teacher_avg_rating db' (r_teacher_id new)
           = (of_int (sum_list rs) + of_int (r_rating new)) / (of_int (int (length rs)) + 1)
       \<and> (v = Rev001 \<and> p \<in> set (profiles db') \<and> p_id p = r_teacher_id new \<longrightarrow>
            p_rating p = Some (to_scale2
              ((of_int (sum_list rs) + of_int (r_rating new)) / (of_int (int (length rs)) + 1))))
       \<and> (v = Rev000 \<longrightarrow> profiles db' = profiles db)
       \<and> (update_review v c db rid f later = Inr dbu \<longrightarrow> length (reviews dbu) = length (reviews db))"
proof (intro conjI impI)
  have after: "reviews_after_row v INSERT c (db\<lparr>reviews := reviews db @ [new]\<rparr>) new now = Inr db'"
    using assms(1) insert_review_Inr by blast
  from reviews_after_row_Inr[OF after]
  show r: "reviews db' = reviews db @ [new]" by simp
  show avg: "teacher_avg_rating db' (r_teacher_id new)
           = (of_int (sum_list rs) + of_int (r_rating new)) / (of_int (int (length rs)) + 1)"
    using r assms(2) by (simp add: teacher_avg_rating_def avg_numeric_def coalesce_def)
  show "p_rating p = Some (to_scale2
          ((of_int (sum_list rs) + of_int (r_rating new)) / (of_int (int (length rs)) + 1)))"
    if "v = Rev001 \<and> p \<in> set (profiles db') \<and> p_id p = r_teacher_id new"
  proof -
    have trig: "update_teacher_stats INSERT c (db\<lparr>reviews := reviews db @ [new]\<rparr>) new now = Inr db'"
      using after that by simp
    have "p_rating p = Some (to_scale2
            (teacher_avg_rating (db\<lparr>reviews := reviews db @ [new]\<rparr>) (r_teacher_id new)))"
      using teacher_rating_recomputed[OF trig, of p] that by simp
    moreover have "teacher_avg_rating (db\<lparr>reviews := reviews db @ [new]\<rparr>) (r_teacher_id new)
                 = teacher_avg_rating db' (r_teacher_id new)"
      using r by (simp add: teacher_avg_rating_def)
    ultimately show ?thesis
      using avg by simp
  qed
  show "profiles db' = profiles db" if "v = Rev000"
    using after that by auto
  show "length (reviews dbu) = length (reviews db)" if "update_review v c db rid f later = Inr dbu"
    using update_review_Inr[OF that] reviews_after_row_Inr by fastforce
qed

text \<open>
  C9, two instances, with a review of the booking B1 by S1 rated 4 in the table. In
  \<open>Rev000\<close> S1 inserts a second review of B1 rated 2: both rows are stored and the
  profiles are as before. In \<open>Rev001\<close> the owner of the tables, who is not under the
  policies, inserts that review: both rows are stored and the rating stored for T1 is
  3.00.
\<close>

theorem review_insert_stores_another_row_witness:
  "insert_review Rev000 (Auth (Some 2)) (example_db\<lparr>reviews := [example_review 30 2 4]\<rparr>)
      (example_review 31 2 2) 9
     = Inr (example_db\<lparr>reviews := [example_review 30 2 4, example_review 31 2 2]\<rparr>)
   \<and> r_booking_id (example_review 30 2 4) = r_booking_id (example_review 31 2 2)
   \<and> r_student_id (example_review 30 2 4) = r_student_id (example_review 31 2 2)
   \<and> reviews (example_db\<lparr>reviews := [example_review 30 2 4, example_review 31 2 2]\<rparr>)
       = reviews (example_db\<lparr>reviews := [example_review 30 2 4]\<rparr>) @ [example_review 31 2 2]
   \<and> profiles (example_db\<lparr>reviews := [example_review 30 2 4, example_review 31 2 2]\<rparr>)
       = profiles (example_db\<lparr>reviews := [example_review 30 2 4]\<rparr>)
   \<and> insert_review Rev001 Bypass_RLS (example_db\<lparr>reviews := [example_review 30 2 4]\<rparr>)
      (example_review 31 2 2) 9
     = Inr (example_db\<lparr>profiles := [example_teacher\<lparr>p_rating := Some 300, p_updated_at := 9\<rparr>,
                                      example_student, example_admin],
                        reviews := [example_review 30 2 4, example_review 31 2 2]\<rparr>)
   \<and> example_teacher\<lparr>p_rating := Some 300, p_updated_at := 9\<rparr>
       \<in> set (profiles (example_db\<lparr>profiles :=
              [example_teacher\<lparr>p_rating := Some 300, p_updated_at := 9\<rparr>,
               example_student, example_admin],
            reviews := [example_review 30 2 4, example_review 31 2 2]\<rparr>))
   \<and> p_id (example_teacher\<lparr>p_rating := Some 300, p_updated_at := 9\<rparr>)
       = r_teacher_id (example_review 31 2 2)
   \<and> p_rating (example_teacher\<lparr>p_rating := Some 300, p_updated_at := 9\<rparr>)
       = Some (to_scale2 ((of_int (sum_list [4]) + of_int (r_rating (example_review 31 2 2)))
                  / (of_int (int (length [4 :: int])) + 1)))
   \<and> to_scale2 ((of_int (sum_list [4]) + of_int (r_rating (example_review 31 2 2)))
                  / (of_int (int (length [4 :: int])) + 1)) = 300"
proof -
  let ?db = "example_db\<lparr>reviews := [example_review 30 2 4]\<rparr>"
  let ?new = "example_review 31 2 2"
  let ?stored = "example_db\<lparr>reviews := [example_review 30 2 4, example_review 31 2 2]\<rparr>"
  let ?t = "example_teacher\<lparr>p_rating := Some 300, p_updated_at := 9\<rparr>"
  let ?rated = "example_db\<lparr>profiles := [?t, example_student, example_admin],
                        reviews := [example_review 30 2 4, example_review 31 2 2]\<rparr>"
  have insA: "insert_review Rev000 (Auth (Some 2)) ?db ?new 9 = Inr ?stored"
    by (simp add: example_defs statement_defs)
  have insB: "insert_review Rev001 Bypass_RLS ?db ?new 9 = Inr ?rated"
    by (simp add: example_defs statement_defs)
  have rs: "[4] = map r_rating (filter (\<lambda>r. r_teacher_id r = r_teacher_id ?new) (reviews ?db))"
    by (simp add: example_defs)
  have same: "r_booking_id (example_review 30 2 4) = r_booking_id ?new"
    "r_student_id (example_review 30 2 4) = r_student_id ?new"
    by (simp_all add: example_defs)
  have t: "?t \<in> set (profiles ?rated)" "p_id ?t = r_teacher_id ?new"
    by (simp_all add: example_defs new_profile_def)
  have m: "to_scale2 ((of_int (sum_list [4]) + of_int (r_rating ?new))
                  / (of_int (int (length [4 :: int])) + 1)) = 300"
    by (simp add: example_defs to_scale2_def floor_rat_numeral)
  from review_insert_stores_another_row[OF insA rs]
  have a: "reviews ?stored = reviews ?db @ [?new]" "profiles ?stored = profiles ?db"
    by blast+
  from review_insert_stores_another_row[OF insB rs, of ?t] t
  have b: "p_rating ?t = Some (to_scale2 ((of_int (sum_list [4]) + of_int (r_rating ?new))
                  / (of_int (int (length [4 :: int])) + 1)))"
    by blast
  from insA same a insB t b m show ?thesis
    by - (intro conjI; assumption)
qed

text \<open>
  C9 as it is stated fails. In \<open>Rev000\<close> the second submission of S1 for B1 is stored as
  a second row, and the mean over the reviews of T1 counts two ratings for that booking.
  In \<open>Rev001\<close>, where the two reviews are inserted by the owner of the tables, there are
  two rows as well and the rating stored for T1 is 3.00, the mean of 4 and 2.
\<close>

theorem second_review_stored_as_row:
  "reviews (run Rev000 example_db
      [Insert_Review (Auth (Some 2)) (example_review 30 2 4) 9,
       Insert_Review (Auth (Some 2)) (example_review 31 2 2) 9])
     = [example_review 30 2 4, example_review 31 2 2]
   \<and> r_booking_id (example_review 30 2 4) = r_booking_id (example_review 31 2 2)
   \<and> r_student_id (example_review 30 2 4) = r_student_id (example_review 31 2 2)
   \<and> teacher_avg_rating (run Rev000 example_db
      [Insert_Review (Auth (Some 2)) (example_review 30 2 4) 9,
       Insert_Review (Auth (Some 2)) (example_review 31 2 2) 9]) 1 = 3
   \<and> reviews (run Rev001 example_db
      [Insert_Review Bypass_RLS (example_review 30 2 4) 9,
       Insert_Review Bypass_RLS (example_review 31 2 2) 9])
     = [example_review 30 2 4, example_review 31 2 2]
   \<and> map p_rating (profiles (run Rev001 example_db
      [Insert_Review Bypass_RLS (example_review 30 2 4) 9,
       Insert_Review Bypass_RLS (example_review 31 2 2) 9]))
     = [Some 300, Some 0, Some 0]"
  by (simp add: example_defs statement_defs)

subsection \<open>The range of the rating of a profile\<close>

lemma list_all_map_preserves:
  "list_all P xs \<Longrightarrow> (\<And>x. P x \<Longrightarrow> P (f x)) \<Longrightarrow> list_all P (map f xs)"
  by (induction xs) auto

lemma reviews_after_row_invariant:
  assumes "reviews_after_row v tg c db new now = Inr db'" and "ratings_invariant db"
  shows "ratings_invariant db'"
proof -
  let ?r = "to_scale2 (teacher_avg_rating db (r_teacher_id new))"
  let ?g = "\<lambda>p. if profile_update_target Rev001 c db (r_teacher_id new) p
                then p\<lparr>p_rating := Some ?r, p_updated_at := now\<rparr> else p"
  have inv: "list_all profile_rating_in_range (profiles db)" "list_all review_rating_check (reviews db)"
    using assms(2) by (simp_all add: ratings_invariant_def)
  have b: "0 \<le> ?r \<and> ?r \<le> 500"
    using inv(2) teacher_avg_rating_bounds to_scale2_bounds by simp
  have g: "profile_rating_in_range (?g p)" if "profile_rating_in_range p" for p
    using that b by (simp add: profile_rating_in_range_def)
  have facts: "reviews db' = reviews db" "db' = db \<or> profiles db' = map ?g (profiles db)"
    using reviews_after_row_Inr[OF assms(1)] by auto
  have "list_all profile_rating_in_range (profiles db')"
    using facts(2)
  proof
    assume "db' = db"
    then show ?thesis using inv(1) by simp
  next
    assume "profiles db' = map ?g (profiles db)"
    moreover have "list_all profile_rating_in_range (map ?g (profiles db))"
      using inv(1) g by (rule list_all_map_preserves)
    ultimately show ?thesis by simp
  qed
  then show ?thesis
    using facts(1) inv(2) by (simp add: ratings_invariant_def)
qed

lemma execute_invariant:
  assumes "execute v db s = Inr db'" and "\<not> writes_rating_directly s" and "ratings_invariant db"
  shows "ratings_invariant db'"
proof (cases s)
  case (New_User new now)
  then obtain e n r where "db' = db\<lparr>profiles := profiles db @ [new_profile (u_id new) e n r now]\<rparr>"
    using assms(1) handle_new_user_profiles by fastforce
  then show ?thesis
    using assms(3)
    by (simp add: ratings_invariant_def profile_rating_in_range_def new_profile_def)
next
  case (Insert_Booking c ins now)
  then show ?thesis
    using assms(1,3)
    by (auto simp: insert_booking_def Let_def ratings_invariant_def split: if_splits)
next
  case (Update_Booking c bid f now)
  then show ?thesis
    using assms(1,3)
    by (auto simp: update_booking_def Let_def ratings_invariant_def
        split: if_splits option.splits)
next
  case (Insert_Transaction c row)
  then show ?thesis
    using assms(1,3)
    by (auto simp: insert_transaction_def Let_def ratings_invariant_def
        split: if_splits sum.splits)
next
  case (Update_Transaction c tid f)
  then show ?thesis
    using assms(1,3)
    by (auto simp: update_transaction_def Let_def ratings_invariant_def
        split: if_splits option.splits sum.splits)
next
  case (Insert_Review c new now)
  then have i: "insert_review v c db new now = Inr db'"
    using assms(1) by simp
  have "ratings_invariant (db\<lparr>reviews := reviews db @ [new]\<rparr>)"
    using assms(3) insert_review_Inr[OF i] by (simp add: ratings_invariant_def)
  then show ?thesis
    using insert_review_Inr[OF i] reviews_after_row_invariant by blast
next
  case (Update_Review c rid f now)
  then have u: "update_review v c db rid f now = Inr db'"
    using assms(1) by simp
  from update_review_Inr[OF u] show ?thesis
  proof
    assume "db' = db"
    then show ?thesis using assms(3) by simp
  next
    assume "\<exists>old. find (\<lambda>r. r_id r = rid) (reviews db) = Some old
            \<and> rls c (\<lambda>uid. reviews_update_policy v uid db old)
            \<and> review_rating_check (f old)
            \<and> reviews_after_row v UPDATE c
                 (db\<lparr>reviews := map (\<lambda>r. if r_id r = rid then f old else r) (reviews db)\<rparr>)
                 (f old) now = Inr db'"
    then obtain old where o: "review_rating_check (f old)"
      "reviews_after_row v UPDATE c
         (db\<lparr>reviews := map (\<lambda>r. if r_id r = rid then f old else r) (reviews db)\<rparr>)
         (f old) now = Inr db'"
      by blast
    have "ratings_invariant (db\<lparr>reviews := map (\<lambda>r. if r_id r = rid then f old else r) (reviews db)\<rparr>)"
      using assms(3) o(1) by (auto simp: ratings_invariant_def list_all_iff)
    then show ?thesis
      using o(2) reviews_after_row_invariant by blast
  qed
next
  case (Set_Profile_Rating c pid x now)
  then show ?thesis using assms(2) by simp
qed

lemma run_invariant:
  assumes "list_all (\<lambda>s. \<not> writes_rating_directly s) ss" and "ratings_invariant db"
  shows "ratings_invariant (run v db ss)"
  using assms
proof (induction ss arbitrary: db)
  case Nil
  then show ?case by simp
next
  case (Cons s ss)
  have "ratings_invariant (case execute v db s of Inl err \<Rightarrow> db | Inr db' \<Rightarrow> db')"
  proof (cases "execute v db s")
    case (Inl err)
    then show ?thesis using Cons.prems(2) by simp
  next
    case (Inr db')
    then show ?thesis
      using Cons.prems execute_invariant by auto
  qed
  then show ?case
    using Cons.IH Cons.prems(1) by simp
qed

text \<open>
  C10, as the code has it. From a database in which every profile has a rating from 0.00
  to 5.00 and every review a rating from 1 to 5, every sequence of registrations and of
  INSERTs and UPDATEs of bookings, transactions and reviews, by any callers, in either
  revision, leaves every profile with a rating from 0.00 to 5.00. The statements that
  write the column rating of profiles themselves are not among them.
\<close>

theorem profile_ratings_bounded:
  assumes "list_all profile_rating_in_range (profiles db)"
    and "list_all review_rating_check (reviews db)"
    and "list_all (\<lambda>s. \<not> writes_rating_directly s) ss"
  shows "list_all profile_rating_in_range (profiles (run v db ss))"
  using run_invariant[of ss db v] assms by (simp add: ratings_invariant_def)

text \<open>
  C10, an instance. The owner inserts a review rated 4 and a registration is refused: T1 has the rating
  4.00, the others 0.00.
\<close>

theorem profile_ratings_bounded_witness:
  "list_all profile_rating_in_range (profiles example_db)
   \<and> list_all review_rating_check (reviews example_db)
   \<and> list_all (\<lambda>s. \<not> writes_rating_directly s)
        [Insert_Review Bypass_RLS (example_review 30 2 4) 9, New_User example_registration 10]
   \<and> map p_rating (profiles (run Rev001 example_db
        [Insert_Review Bypass_RLS (example_review 30 2 4) 9, New_User example_registration 10]))
      = [Some 400, Some 0, Some 0]
   \<and> list_all profile_rating_in_range (profiles (run Rev001 example_db
        [Insert_Review Bypass_RLS (example_review 30 2 4) 9, New_User example_registration 10]))"
proof -
  have a: "list_all profile_rating_in_range (profiles example_db)"
    by (simp add: example_defs profile_rating_in_range_def)
  have b: "list_all review_rating_check (reviews example_db)"
    by (simp add: example_defs)
  have c: "list_all (\<lambda>s. \<not> writes_rating_directly s)
        [Insert_Review Bypass_RLS (example_review 30 2 4) 9, New_User example_registration 10]"
    by simp
  have d: "map p_rating (profiles (run Rev001 example_db
        [Insert_Review Bypass_RLS (example_review 30 2 4) 9, New_User example_registration 10]))
      = [Some 400, Some 0, Some 0]"
    by (simp add: example_defs statement_defs)
  from a b c d profile_ratings_bounded[OF a b c, of Rev001] show ?thesis
    by - (intro conjI; assumption)
qed

text \<open>
  C10 as it is stated, for any sequence of operations, fails in \<open>Rev000\<close>: the policy
  "Users can update own profile" lets the owner of a profile update every column of it,
  and T1 sets the rating of T1 to 9.99.
\<close>

theorem teacher_sets_own_rating:
  "profiles (run Rev000 example_db [Set_Profile_Rating (Auth (Some 1)) 1 (Some (999 / 100)) 9])
     = [example_teacher\<lparr>p_rating := Some 999, p_updated_at := 9\<rparr>, example_student, example_admin]
   \<and> p_rating (example_teacher\<lparr>p_rating := Some 999, p_updated_at := 9\<rparr>) = Some 999
   \<and> \<not> profile_rating_in_range (example_teacher\<lparr>p_rating := Some 999, p_updated_at := 9\<rparr>)
   \<and> \<not> list_all profile_rating_in_range
         (profiles (run Rev000 example_db
            [Set_Profile_Rating (Auth (Some 1)) 1 (Some (999 / 100)) 9]))"
  by (simp add: example_defs statement_defs profile_rating_in_range_def)

end
